theory Spec2Isabelle
  imports Complex_Main
begin

section \<open>EcoTrack API server: the challenge-participation handlers\<close>

text \<open>
  The development embeds the route handlers of the serverless API file (the one
  with the header comment \<open>api/index.js\<close>, 651 lines): \<open>requireAuth\<close>,
  \<open>POST /api/challenges/join/:id\<close>, \<open>GET /api/user-challenges/me\<close>,
  \<open>PATCH /api/user-challenges/:id/progress\<close>, \<open>DELETE /api/user-challenges/:id\<close>
  and \<open>GET /api/stats\<close>. The older server file (header comment \<open>server.js\<close>) has
  the same \<open>requireAuth\<close>, progress and leave code; its join and list handlers differ
  and are embedded as \<open>server_join\<close> and \<open>server_listMine\<close>.

  The two MongoDB collections the handlers touch are lists of documents in insertion
  order; every handler is a function from the request and the database to the response
  and the new database. The requests of one run are handled one after the other. The
  model starts where Express calls the handlers of a route; how a request is routed to
  them is not part of it.
\<close>

subsection \<open>BSON identifiers\<close>

text \<open>
  A document's \<open>_id\<close> is an ObjectId (twelve bytes, written here as its 24 lower-case
  hex digits, which is what \<open>String(oid)\<close> returns) or a plain string. MongoDB's
  equality match is type sensitive: an ObjectId never equals a string.
\<close>

datatype bson_id = ObjectId string | IdString string

definition hexDigit :: "char \<Rightarrow> bool" where
  "hexDigit c = (c \<in> set ''0123456789abcdefABCDEF'')"

definition toLowerHex :: "char \<Rightarrow> char" where
  "toLowerHex c =
     (if c = CHR ''A'' then CHR ''a'' else if c = CHR ''B'' then CHR ''b''
      else if c = CHR ''C'' then CHR ''c'' else if c = CHR ''D'' then CHR ''d''
      else if c = CHR ''E'' then CHR ''e'' else if c = CHR ''F'' then CHR ''f''
      else c)"

definition isHex24 :: "string \<Rightarrow> bool" where
  "isHex24 s = (length s = 24 \<and> list_all hexDigit s)"

text \<open>
  \<open>new ObjectId(s)\<close> of the bson library on a string: a 24 character hex string gives
  the ObjectId with those bytes, any other string throws a BSONError (\<open>None\<close>).
  Releases of the library before version 6 also accept a string of 12 bytes; no closed
  theorem below depends on such a string.
\<close>

definition new_ObjectId :: "string \<Rightarrow> bson_id option" where
  "new_ObjectId s = (if isHex24 s then Some (ObjectId (map toLowerHex s)) else None)"

text \<open>\<open>ObjectId.isValid(s)\<close>: the constructor accepts \<open>s\<close>.\<close>

definition ObjectId_isValid :: "string \<Rightarrow> bool" where
  "ObjectId_isValid s = (new_ObjectId s \<noteq> None)"

text \<open>\<open>String(x)\<close> on an identifier.\<close>

fun String_of :: "bson_id \<Rightarrow> string" where
  "String_of (ObjectId h) = h"
| "String_of (IdString s) = s"

text \<open>JavaScript truthiness of an identifier: an object is truthy, a string unless empty.\<close>

fun truthy_id :: "bson_id \<Rightarrow> bool" where
  "truthy_id (ObjectId h) = True"
| "truthy_id (IdString s) = (s \<noteq> [])"

subsection \<open>JavaScript numbers and request bodies\<close>

text \<open>
  A JavaScript number is a finite double (written as the real it denotes; \<open>+0\<close> and
  \<open>-0\<close> are one value), an infinity or NaN. \<open>Math.max\<close>, \<open>Math.min\<close> and \<open>>=\<close>
  return one of their arguments or a truth value, so they are exact on this type.
\<close>

datatype jsnum = Finite real | PosInfinity | NegInfinity | NaN

fun js_le :: "jsnum \<Rightarrow> jsnum \<Rightarrow> bool" where
  "js_le NaN b = False"
| "js_le a NaN = False"
| "js_le NegInfinity b = True"
| "js_le a PosInfinity = True"
| "js_le PosInfinity b = False"
| "js_le a NegInfinity = False"
| "js_le (Finite x) (Finite y) = (x \<le> y)"

definition js_ge :: "jsnum \<Rightarrow> jsnum \<Rightarrow> bool" where
  "js_ge a b = js_le b a"

definition Math_max :: "jsnum \<Rightarrow> jsnum \<Rightarrow> jsnum" where
  "Math_max a b = (if a = NaN \<or> b = NaN then NaN else if js_le a b then b else a)"

definition Math_min :: "jsnum \<Rightarrow> jsnum \<Rightarrow> jsnum" where
  "Math_min a b = (if a = NaN \<or> b = NaN then NaN else if js_le a b then a else b)"

text \<open>
  Rounding of a real to the nearest double (IEEE 754 binary64): 53 significant bits,
  the least exponent that of the subnormal numbers, ties to the even significand, and
  an infinity when the rounded magnitude reaches \<open>2^1024\<close>.
\<close>

definition round_half_even :: "real \<Rightarrow> int" where
  "round_half_even q =
     (let f = \<lfloor>q\<rfloor>
      in if q - of_int f < 1 / 2 then f
         else if 1 / 2 < q - of_int f then f + 1
         else if even f then f else f + 1)"

definition round_double :: "real \<Rightarrow> jsnum" where
  "round_double z =
     (if z = 0 then Finite 0
      else
        (let e = max \<lfloor>log 2 \<bar>z\<bar>\<rfloor> (- 1022);
             u = 2 powr (of_int e - 52);
             r = of_int (round_half_even (z / u)) * u
         in if 2 ^ 1024 \<le> \<bar>r\<bar> then (if 0 < z then PosInfinity else NegInfinity)
            else Finite r))"

text \<open>
  Addition of doubles: the exact sum of two finite doubles is rounded, so it may lose
  low bits and may overflow to an infinity. \<open>$sum\<close> is taken as one such addition
  per value, in collection order.
\<close>

fun js_add :: "jsnum \<Rightarrow> jsnum \<Rightarrow> jsnum" where
  "js_add NaN b = NaN"
| "js_add a NaN = NaN"
| "js_add PosInfinity NegInfinity = NaN"
| "js_add NegInfinity PosInfinity = NaN"
| "js_add PosInfinity b = PosInfinity"
| "js_add a PosInfinity = PosInfinity"
| "js_add NegInfinity b = NegInfinity"
| "js_add a NegInfinity = NegInfinity"
| "js_add (Finite x) (Finite y) = round_double (x + y)"

text \<open>A number is falsy when it is zero or NaN (the left operand of \<open>|| 0\<close>).\<close>

definition falsy_num :: "jsnum \<Rightarrow> bool" where
  "falsy_num n = (n = NaN \<or> n = Finite 0)"

text \<open>A field of the parsed JSON body; \<open>JUndefined\<close> is an absent field.\<close>

datatype jsval = JUndefined | JNull | JBool bool | JNumber jsnum | JString string | JObject

text \<open>\<open>const { progress, addLogValue } = req.body\<close>\<close>

record progressBody =
  body_progress :: jsval
  body_addLogValue :: jsval

subsection \<open>Documents and the database\<close>

datatype uc_status = Ongoing | Finished

text \<open>An entry of \<open>progressLogs\<close>: \<open>{ date, value }\<close>.\<close>

record logEntry =
  log_date :: nat
  log_value :: jsnum

text \<open>A document of the \<open>userChallenges\<close> collection.\<close>

record userChallenge =
  uc_id :: bson_id
  userId :: string
  challengeId :: bson_id
  status :: uc_status
  progress :: jsnum
  progressLogs :: "logEntry list"
  joinDate :: nat
  lastUpdated :: nat

text \<open>
  A document of the \<open>challenges\<close> collection, with the fields the handlers read or
  write and its title.
\<close>

record challenge =
  ch_id :: bson_id
  title :: string
  participants :: int

text \<open>
  The database. The \<open>tips\<close>, \<open>events\<close> and \<open>users\<close> collections are only counted,
  so a document of theirs is its title or email.
\<close>

record db =
  challenges :: "challenge list"
  userChallenges :: "userChallenge list"
  tips :: "string list"
  events :: "string list"
  users :: "string list"

subsection \<open>Collection operations of the driver\<close>

text \<open>\<open>findOne\<close>: the first document matching the filter, \<open>None\<close> for null.\<close>

definition findOne :: "('a \<Rightarrow> bool) \<Rightarrow> 'a list \<Rightarrow> 'a option" where
  "findOne P xs = List.find P xs"

text \<open>\<open>updateOne\<close>: the update applied to the first matching document, if any.\<close>

fun updateOne :: "('a \<Rightarrow> bool) \<Rightarrow> ('a \<Rightarrow> 'a) \<Rightarrow> 'a list \<Rightarrow> 'a list" where
  "updateOne P f [] = []"
| "updateOne P f (x # xs) = (if P x then f x # xs else x # updateOne P f xs)"

text \<open>\<open>deleteOne\<close>: the first matching document removed, if any.\<close>

fun deleteOne :: "('a \<Rightarrow> bool) \<Rightarrow> 'a list \<Rightarrow> 'a list" where
  "deleteOne P [] = []"
| "deleteOne P (x # xs) = (if P x then xs else x # deleteOne P xs)"

text \<open>\<open>insertOne\<close>: the document is added after the existing ones.\<close>

definition insertOne :: "'a \<Rightarrow> 'a list \<Rightarrow> 'a list" where
  "insertOne x xs = xs @ [x]"

subsection \<open>Responses\<close>

record statsBody =
  totalChallenges :: nat
  totalTips :: nat
  totalEvents :: nat
  totalUsers :: nat
  activeParticipants :: nat
  totalPlasticReducedKg :: jsnum

datatype payload =
    Message string
  | AlreadyJoined userChallenge
  | Joined bson_id userChallenge
  | Populated "(userChallenge \<times> challenge option) list"
  | Updated "userChallenge option"
  | LeftChallenge
  | Stats statsBody

text \<open>A response: the HTTP status code and the JSON payload.\<close>

type_synonym response = "nat \<times> payload"

subsection \<open>requireAuth\<close>

text \<open>
  \<open>req.header('x-user-email') || null\<close>, then 401 when falsy: a missing header and
  an empty one are both refused. The result is \<open>req.user.email\<close>.
\<close>

definition requireAuth :: "string option \<Rightarrow> string option" where
  "requireAuth hdr = (case hdr of None \<Rightarrow> None | Some e \<Rightarrow> if e = [] then None else Some e)"

definition unauthorized :: response where
  "unauthorized = (401, Message ''Unauthorized. Send x-user-email header for now.'')"

subsection \<open>POST /api/challenges/join/:id\<close>

text \<open>
  The filter for the challenge: the ObjectId when the route parameter is valid and
  prints back as itself, the plain string otherwise.
\<close>

definition challengeFilter :: "string \<Rightarrow> bson_id" where
  "challengeFilter cid =
     (case new_ObjectId cid of
        Some oid \<Rightarrow> if String_of oid = cid then oid else IdString cid
      | None \<Rightarrow> IdString cid)"

text \<open>\<open>challenge._id || challengeId\<close>\<close>

definition id_or :: "bson_id \<Rightarrow> string \<Rightarrow> bson_id" where
  "id_or i cid = (if truthy_id i then i else IdString cid)"

text \<open>
  The handler after \<open>requireAuth\<close>. \<open>now\<close> is the value of \<open>new Date()\<close> (read
  twice by the source, for \<open>joinDate\<close> and \<open>lastUpdated\<close>) and \<open>newId\<close> the
  \<open>insertedId\<close> that the driver assigns to the new document.
\<close>

definition join :: "nat \<Rightarrow> bson_id \<Rightarrow> string \<Rightarrow> string \<Rightarrow> db \<Rightarrow> response \<times> db" where
  "join now newId userEmail cid s =
     (case findOne (\<lambda>c. ch_id c = challengeFilter cid) (challenges s) of
        None \<Rightarrow> ((404, Message ''Challenge not found''), s)
      | Some ch \<Rightarrow>
          (let ref = id_or (ch_id ch) cid in
           case findOne (\<lambda>u. userId u = userEmail \<and> challengeId u = ref) (userChallenges s) of
             Some ex \<Rightarrow> ((200, AlreadyJoined ex), s)
           | None \<Rightarrow>
               (let uc = \<lparr> uc_id = newId, userId = userEmail, challengeId = ref,
                           status = Ongoing, progress = Finite 0, progressLogs = [],
                           joinDate = now, lastUpdated = now \<rparr>;
                    s1 = s\<lparr> userChallenges := insertOne uc (userChallenges s) \<rparr>;
                    s2 = s1\<lparr> challenges :=
                           updateOne (\<lambda>c. ch_id c = ref)
                             (\<lambda>c. c\<lparr> participants := participants c + 1 \<rparr>) (challenges s1) \<rparr>
                in ((201, Joined newId uc), s2))))"

subsection \<open>GET /api/user-challenges/me\<close>

text \<open>
  The challenge of one enrollment: looked up as an ObjectId when \<open>challengeId\<close> is
  truthy and its string form is a valid ObjectId, as a string otherwise.
\<close>

definition populate :: "challenge list \<Rightarrow> userChallenge \<Rightarrow> challenge option" where
  "populate chs uc =
     (case (if truthy_id (challengeId uc) then new_ObjectId (String_of (challengeId uc)) else None) of
        Some oid \<Rightarrow> findOne (\<lambda>c. ch_id c = oid) chs
      | None \<Rightarrow> findOne (\<lambda>c. ch_id c = IdString (String_of (challengeId uc))) chs)"

definition listMine :: "string \<Rightarrow> db \<Rightarrow> response \<times> db" where
  "listMine userEmail s =
     (let ucs = filter (\<lambda>u. userId u = userEmail) (userChallenges s)
      in ((200, Populated (map (\<lambda>uc. (uc, populate (challenges s) uc)) ucs)), s))"

subsection \<open>PATCH /api/user-challenges/:id/progress\<close>

text \<open>The \<open>$set\<close> document \<open>updates\<close>, as a function on the stored enrollment.\<close>

definition setUpdates :: "nat \<Rightarrow> jsval \<Rightarrow> userChallenge \<Rightarrow> userChallenge" where
  "setUpdates now p u =
     (case p of
        JNumber n \<Rightarrow>
          (let c = Math_min (Finite 100) (Math_max (Finite 0) n)
           in u\<lparr> progress := c,
                 status := (if js_ge c (Finite 100) then Finished else Ongoing),
                 lastUpdated := now \<rparr>)
      | _ \<Rightarrow> u\<lparr> lastUpdated := now \<rparr>)"

text \<open>The \<open>$push\<close> of one log entry, when \<open>addLogValue\<close> is a number.\<close>

definition pushLog :: "nat \<Rightarrow> jsval \<Rightarrow> bson_id \<Rightarrow> userChallenge list \<Rightarrow> userChallenge list" where
  "pushLog now a oid ucs =
     (case a of
        JNumber v \<Rightarrow>
          updateOne (\<lambda>u. uc_id u = oid)
            (\<lambda>u. u\<lparr> progressLogs := progressLogs u @ [\<lparr> log_date = now, log_value = v \<rparr>] \<rparr>) ucs
      | _ \<Rightarrow> ucs)"

text \<open>
  The handler after \<open>requireAuth\<close>. \<open>new ObjectId(id)\<close> throws on a malformed
  route parameter; the \<open>catch\<close> block answers 500. The log entry's date and
  \<open>lastUpdated\<close> are two values of \<open>new Date()\<close> within one request, both
  \<open>now\<close> here.
\<close>

definition updateProgress ::
  "nat \<Rightarrow> string \<Rightarrow> string \<Rightarrow> progressBody \<Rightarrow> db \<Rightarrow> response \<times> db" where
  "updateProgress now userEmail rid body s =
     (case new_ObjectId rid of
        None \<Rightarrow> ((500, Message ''Failed to update progress''), s)
      | Some oid \<Rightarrow>
          (case findOne (\<lambda>u. uc_id u = oid) (userChallenges s) of
             None \<Rightarrow> ((404, Message ''UserChallenge not found''), s)
           | Some uc \<Rightarrow>
               if userId uc \<noteq> userEmail then ((403, Message ''Forbidden''), s)
               else
                 (let ucs1 = pushLog now (body_addLogValue body) oid (userChallenges s);
                      ucs2 = updateOne (\<lambda>u. uc_id u = oid)
                               (setUpdates now (body_progress body)) ucs1
                  in ((200, Updated (findOne (\<lambda>u. uc_id u = oid) ucs2)),
                      s\<lparr> userChallenges := ucs2 \<rparr>))))"

subsection \<open>DELETE /api/user-challenges/:id\<close>

text \<open>
  The handler after \<open>requireAuth\<close>: the enrollment is deleted, then the counter of
  its challenge is decremented under the filter \<open>participants: { $gt: 0 }\<close>.
\<close>

definition leave :: "string \<Rightarrow> string \<Rightarrow> db \<Rightarrow> response \<times> db" where
  "leave userEmail rid s =
     (case new_ObjectId rid of
        None \<Rightarrow> ((500, Message ''Failed to leave challenge''), s)
      | Some oid \<Rightarrow>
          (case findOne (\<lambda>u. uc_id u = oid) (userChallenges s) of
             None \<Rightarrow> ((404, Message ''Not found''), s)
           | Some uc \<Rightarrow>
               if userId uc \<noteq> userEmail then ((403, Message ''Forbidden''), s)
               else
                 (let s1 = s\<lparr> userChallenges := deleteOne (\<lambda>u. uc_id u = oid) (userChallenges s) \<rparr>;
                      s2 = s1\<lparr> challenges :=
                             updateOne (\<lambda>c. ch_id c = challengeId uc \<and> 0 < participants c)
                               (\<lambda>c. c\<lparr> participants := participants c - 1 \<rparr>) (challenges s1) \<rparr>
                  in ((200, LeftChallenge), s2))))"

subsection \<open>GET /api/stats\<close>

text \<open>
  The first pipeline: \<open>$match\<close> on the status, one \<open>$group\<close> collecting the user ids
  with \<open>$addToSet\<close>, \<open>$project\<close> of the set's size. A \<open>$group\<close> over no documents
  returns no document.
\<close>

definition uniqAgg :: "userChallenge list \<Rightarrow> nat list" where
  "uniqAgg ucs =
     (let m = filter (\<lambda>u. status u = Ongoing) ucs
      in if m = [] then [] else [length (remdups (map userId m))])"

text \<open>
  The second pipeline: \<open>$unwind\<close> of \<open>progressLogs\<close> (an enrollment with no entry
  yields nothing), one \<open>$group\<close> with the \<open>$sum\<close> of the values, which starts at 0.
\<close>

definition sumAgg :: "userChallenge list \<Rightarrow> jsnum list" where
  "sumAgg ucs =
     (let es = concat (map progressLogs ucs)
      in if es = [] then [] else [foldl js_add (Finite 0) (map log_value es)])"

text \<open>\<open>(agg[0] && agg[0].field) || 0\<close>\<close>

definition countOrZero :: "nat list \<Rightarrow> nat" where
  "countOrZero agg = (case agg of [] \<Rightarrow> 0 | c # _ \<Rightarrow> if c = 0 then 0 else c)"

definition totalOrZero :: "jsnum list \<Rightarrow> jsnum" where
  "totalOrZero agg = (case agg of [] \<Rightarrow> Finite 0 | t # _ \<Rightarrow> if falsy_num t then Finite 0 else t)"

definition computeStats :: "db \<Rightarrow> response \<times> db" where
  "computeStats s =
     ((200, Stats \<lparr> totalChallenges = length (challenges s),
                    totalTips = length (tips s),
                    totalEvents = length (events s),
                    totalUsers = length (users s),
                    activeParticipants = countOrZero (uniqAgg (userChallenges s)),
                    totalPlasticReducedKg = totalOrZero (sumAgg (userChallenges s)) \<rparr>), s)"

subsection \<open>Requests\<close>

text \<open>
  A request carries the \<open>x-user-email\<close> header (\<open>None\<close> when missing). The protected
  routes run \<open>requireAuth\<close> first.
\<close>

datatype request =
    Join "string option" nat bson_id string
  | ListMine "string option"
  | UpdateProgress "string option" nat string progressBody
  | Leave "string option" string
  | GetStats

fun handle :: "request \<Rightarrow> db \<Rightarrow> response \<times> db" where
  "handle (Join hdr now newId cid) s =
     (case requireAuth hdr of None \<Rightarrow> (unauthorized, s) | Some e \<Rightarrow> join now newId e cid s)"
| "handle (ListMine hdr) s =
     (case requireAuth hdr of None \<Rightarrow> (unauthorized, s) | Some e \<Rightarrow> listMine e s)"
| "handle (UpdateProgress hdr now rid body) s =
     (case requireAuth hdr of None \<Rightarrow> (unauthorized, s) | Some e \<Rightarrow> updateProgress now e rid body s)"
| "handle (Leave hdr rid) s =
     (case requireAuth hdr of None \<Rightarrow> (unauthorized, s) | Some e \<Rightarrow> leave e rid s)"
| "handle GetStats s = computeStats s"

text \<open>The database after a sequence of requests, handled in order.\<close>

fun run :: "request list \<Rightarrow> db \<Rightarrow> db" where
  "run [] s = s"
| "run (r # rs) s = run rs (snd (handle r s))"

subsection \<open>The join and list handlers of the server file\<close>

text \<open>
  The server file builds the ObjectId from the route parameter without checking it, so
  a malformed parameter reaches the \<open>catch\<close> block, and it looks an enrollment's
  challenge up by the stored \<open>challengeId\<close> as it is.
\<close>

definition server_join :: "nat \<Rightarrow> bson_id \<Rightarrow> string \<Rightarrow> string \<Rightarrow> db \<Rightarrow> response \<times> db" where
  "server_join now newId userEmail cid s =
     (case new_ObjectId cid of
        None \<Rightarrow> ((500, Message ''Failed to join challenge''), s)
      | Some oid \<Rightarrow>
          (case findOne (\<lambda>c. ch_id c = oid) (challenges s) of
             None \<Rightarrow> ((404, Message ''Challenge not found''), s)
           | Some ch \<Rightarrow>
               (case findOne (\<lambda>u. userId u = userEmail \<and> challengeId u = oid) (userChallenges s) of
                  Some ex \<Rightarrow> ((200, AlreadyJoined ex), s)
                | None \<Rightarrow>
                    (let uc = \<lparr> uc_id = newId, userId = userEmail, challengeId = oid,
                                status = Ongoing, progress = Finite 0, progressLogs = [],
                                joinDate = now, lastUpdated = now \<rparr>;
                         s1 = s\<lparr> userChallenges := insertOne uc (userChallenges s) \<rparr>;
                         s2 = s1\<lparr> challenges :=
                                updateOne (\<lambda>c. ch_id c = oid)
                                  (\<lambda>c. c\<lparr> participants := participants c + 1 \<rparr>) (challenges s1) \<rparr>
                     in ((201, Joined newId uc), s2)))))"

definition server_listMine :: "string \<Rightarrow> db \<Rightarrow> response \<times> db" where
  "server_listMine userEmail s =
     (let ucs = filter (\<lambda>u. userId u = userEmail) (userChallenges s)
      in ((200, Populated (map (\<lambda>uc. (uc, findOne (\<lambda>c. ch_id c = challengeId uc) (challenges s))) ucs)), s))"

subsection \<open>Notions used in the statements\<close>

text \<open>The document \<open>uc\<close> that the join handler inserts.\<close>

definition newEnrollment :: "nat \<Rightarrow> bson_id \<Rightarrow> string \<Rightarrow> bson_id \<Rightarrow> userChallenge" where
  "newEnrollment now newId u ref =
     \<lparr> uc_id = newId, userId = u, challengeId = ref, status = Ongoing, progress = Finite 0,
       progressLogs = [], joinDate = now, lastUpdated = now \<rparr>"

text \<open>\<open>typeof v === 'number'\<close>\<close>

fun isNumber :: "jsval \<Rightarrow> bool" where
  "isNumber (JNumber n) = True"
| "isNumber v = False"

text \<open>No challenge has a negative \<open>participants\<close> counter.\<close>

definition nonneg_counters :: "db \<Rightarrow> bool" where
  "nonneg_counters s = (\<forall>c\<in>set (challenges s). 0 \<le> participants c)"

text \<open>
  An enrollment's \<open>progress\<close> lies between 0 and 100, and its \<open>status\<close> is
  \<open>Finished\<close> exactly when the progress is at least 100.
\<close>

definition progress_ok :: "userChallenge \<Rightarrow> bool" where
  "progress_ok e =
     (js_le (Finite 0) (progress e) \<and> js_le (progress e) (Finite 100) \<and>
      (status e = Finished) = js_ge (progress e) (Finite 100))"

definition progress_inv :: "db \<Rightarrow> bool" where
  "progress_inv s = (\<forall>e\<in>set (userChallenges s). progress_ok e)"

text \<open>
  A request as the handlers receive it: the body is what \<open>express.json()\<close> parsed,
  and JSON has no text for NaN, so the \<open>progress\<close> field is not NaN (a literal too
  large for a double is read as an infinity).
\<close>

fun not_NaN_progress :: "request \<Rightarrow> bool" where
  "not_NaN_progress (UpdateProgress hdr now rid body) = (body_progress body \<noteq> JNumber NaN)"
| "not_NaN_progress r = True"

text \<open>
  A progress update by user \<open>u\<close> on enrollment \<open>rid\<close> at time \<open>t\<close> whose body has
  the \<open>progress\<close> field \<open>p\<close> and the numeric \<open>addLogValue\<close> \<open>v\<close>, and the log
  entry such a call is to leave.
\<close>

definition logCall :: "string \<Rightarrow> string \<Rightarrow> nat \<times> jsval \<times> jsnum \<Rightarrow> request" where
  "logCall u rid c =
     (case c of (t, p, v) \<Rightarrow>
        UpdateProgress (Some u) t rid \<lparr> body_progress = p, body_addLogValue = JNumber v \<rparr>)"

definition logged :: "nat \<times> jsval \<times> jsnum \<Rightarrow> logEntry" where
  "logged c = (case c of (t, p, v) \<Rightarrow> \<lparr> log_date = t, log_value = v \<rparr>)"

text \<open>
  An identifier that names what it prints: an ObjectId written with its 24 lower-case
  hex digits, or a string that is not itself the hex form of an ObjectId. The
  identifiers that \<open>insertOne\<close> assigns are of the first kind.
\<close>

fun plain_ref :: "bson_id \<Rightarrow> bool" where
  "plain_ref (ObjectId h) = (new_ObjectId h = Some (ObjectId h))"
| "plain_ref (IdString t) = (\<not> ObjectId_isValid t)"

definition plain_db :: "db \<Rightarrow> bool" where
  "plain_db s = ((\<forall>c\<in>set (challenges s). plain_ref (ch_id c)) \<and>
                 (\<forall>e\<in>set (userChallenges s). plain_ref (challengeId e)))"


subsection \<open>A small database\<close>

text \<open>
  One challenge and the states that a join, two log entries and two more enrollments
  lead to; the closed theorems below run the handlers on them.
\<close>

definition demo_challenge_id :: string where
  "demo_challenge_id = ''64b7f3a0c2d1e4f567890abc''"

definition demo_enrollment_id :: string where
  "demo_enrollment_id = ''64b7f3a0c2d1e4f567890abd''"

definition demo_orphan_id :: string where
  "demo_orphan_id = ''64b7f3a0c2d1e4f567890abe''"

definition demo_db :: db where
  "demo_db = \<lparr> challenges = [\<lparr> ch_id = ObjectId demo_challenge_id, title = ''Plastic-free July'',
                               participants = 0 \<rparr>],
               userChallenges = [], tips = [], events = [], users = [] \<rparr>"

definition demo_join :: request where
  "demo_join = Join (Some ''ana@eco.org'') 1 (ObjectId demo_enrollment_id) demo_challenge_id"

definition demo_enrollment :: userChallenge where
  "demo_enrollment = \<lparr> uc_id = ObjectId demo_enrollment_id, userId = ''ana@eco.org'',
       challengeId = ObjectId demo_challenge_id, status = Ongoing, progress = Finite 0,
       progressLogs = [], joinDate = 1, lastUpdated = 1 \<rparr>"

definition demo_joined :: db where
  "demo_joined = demo_db\<lparr> challenges := [\<lparr> ch_id = ObjectId demo_challenge_id,
                                title = ''Plastic-free July'', participants = 1 \<rparr>],
                           userChallenges := [demo_enrollment] \<rparr>"

definition demo_logged :: userChallenge where
  "demo_logged = demo_enrollment\<lparr> progressLogs := [\<lparr> log_date = 2, log_value = Finite 5 \<rparr>,
                                                      \<lparr> log_date = 3, log_value = Finite 3 \<rparr>] \<rparr>"

definition demo_orphan :: userChallenge where
  "demo_orphan = demo_enrollment\<lparr> uc_id := ObjectId demo_orphan_id,
                                   challengeId := IdString ''tree-planting'' \<rparr>"

definition demo_finished :: userChallenge where
  "demo_finished = \<lparr> uc_id = ObjectId ''64b7f3a0c2d1e4f567890abf'', userId = ''ben@eco.org'',
       challengeId = ObjectId demo_challenge_id, status = Finished, progress = Finite 100,
       progressLogs = [\<lparr> log_date = 4, log_value = Finite 10 \<rparr>], joinDate = 1, lastUpdated = 4 \<rparr>"

definition demo_stats :: db where
  "demo_stats = demo_joined\<lparr> userChallenges := [demo_logged, demo_orphan, demo_finished] \<rparr>"

definition demo_infinities :: db where
  "demo_infinities = demo_joined\<lparr> userChallenges :=
      [demo_enrollment\<lparr> progressLogs := [\<lparr> log_date = 2, log_value = PosInfinity \<rparr>,
                                            \<lparr> log_date = 3, log_value = NegInfinity \<rparr>],
                         lastUpdated := 3 \<rparr>] \<rparr>"

text \<open>
  A challenge whose \<open>_id\<close> is a string of 24 hex digits with upper-case letters, and
  the state after a join to it.
\<close>

definition demo_string_id :: string where
  "demo_string_id = ''64B7F3A0C2D1E4F567890ABC''"

definition demo_seeded :: db where
  "demo_seeded = \<lparr> challenges = [\<lparr> ch_id = IdString demo_string_id, title = ''Beach clean-up'',
                                   participants = 0 \<rparr>],
                   userChallenges = [], tips = [], events = [], users = [] \<rparr>"

definition demo_string_enrollment :: userChallenge where
  "demo_string_enrollment = \<lparr> uc_id = ObjectId demo_enrollment_id, userId = ''ana@eco.org'',
       challengeId = IdString demo_string_id, status = Ongoing, progress = Finite 0,
       progressLogs = [], joinDate = 1, lastUpdated = 1 \<rparr>"

definition demo_seeded_joined :: db where
  "demo_seeded_joined = demo_seeded\<lparr> challenges := [\<lparr> ch_id = IdString demo_string_id,
                                title = ''Beach clean-up'', participants = 1 \<rparr>],
                           userChallenges := [demo_string_enrollment] \<rparr>"

section \<open>Lemmas\<close>

subsection \<open>The collection operations\<close>

lemma findOne_None_iff: "findOne P xs = None \<longleftrightarrow> (\<forall>x\<in>set xs. \<not> P x)"
  by (auto simp: findOne_def find_None_iff)

lemma findOne_key_None: "(findOne (\<lambda>c. f c = k) xs = None) = (k \<notin> f ` set xs)"
  by (induction xs) (auto simp: findOne_def)

lemma findOne_SomeD: "findOne P xs = Some x \<Longrightarrow> x \<in> set xs \<and> P x"
  by (auto simp: findOne_def find_Some_iff)

lemma findOne_split:
  "findOne P xs = Some x \<Longrightarrow> \<exists>pre post. xs = pre @ x # post \<and> (\<forall>y\<in>set pre. \<not> P y) \<and> P x"
proof (induction xs)
  case Nil
  then show ?case by (simp add: findOne_def)
next
  case (Cons a xs)
  show ?case
  proof (cases "P a")
    case True
    with Cons.prems have "a = x" by (simp add: findOne_def)
    with True have "a # xs = [] @ x # xs \<and> (\<forall>y\<in>set []. \<not> P y) \<and> P x" by simp
    then show ?thesis by blast
  next
    case False
    with Cons.prems have "findOne P xs = Some x" by (simp add: findOne_def)
    from Cons.IH [OF this] obtain pre post
      where "xs = pre @ x # post" "\<forall>y\<in>set pre. \<not> P y" "P x" by blast
    with False have "a # xs = (a # pre) @ x # post \<and> (\<forall>y\<in>set (a # pre). \<not> P y) \<and> P x"
      by simp
    then show ?thesis by blast
  qed
qed

lemma findOne_append_first:
  "(\<forall>y\<in>set pre. \<not> P y) \<Longrightarrow> P x \<Longrightarrow> findOne P (pre @ x # post) = Some x"
  by (induction pre) (simp_all add: findOne_def)


lemma updateOne_first:
  "(\<forall>y\<in>set pre. \<not> P y) \<Longrightarrow> P x \<Longrightarrow> updateOne P f (pre @ x # post) = pre @ f x # post"
  by (induction pre) simp_all

lemma updateOne_none: "(\<forall>x\<in>set xs. \<not> P x) \<Longrightarrow> updateOne P f xs = xs"
  by (induction xs) simp_all

lemma deleteOne_first:
  "(\<forall>y\<in>set pre. \<not> P y) \<Longrightarrow> P x \<Longrightarrow> deleteOne P (pre @ x # post) = pre @ post"
  by (induction pre) simp_all

lemma deleteOne_none: "(\<forall>x\<in>set xs. \<not> P x) \<Longrightarrow> deleteOne P xs = xs"
  by (induction xs) simp_all

lemma set_updateOne: "y \<in> set (updateOne P f xs) \<Longrightarrow> y \<in> set xs \<or> (\<exists>x\<in>set xs. P x \<and> y = f x)"
  by (induction xs) (auto split: if_splits)

lemma set_deleteOne: "y \<in> set (deleteOne P xs) \<Longrightarrow> y \<in> set xs"
  by (induction xs) (auto split: if_splits)

lemma findOne_updateOne:
  assumes "findOne P xs = Some x" "P (f x)"
  shows "findOne P (updateOne P f xs) = Some (f x)"
proof -
  from findOne_split [OF assms(1)] obtain pre post where
    "xs = pre @ x # post" "\<forall>y\<in>set pre. \<not> P y" "P x" by blast
  with assms(2) show ?thesis by (simp add: updateOne_first findOne_append_first)
qed

subsection \<open>Identifiers\<close>

lemma challengeFilter_cases:
  "challengeFilter cid = IdString cid \<or> (\<exists>h. challengeFilter cid = ObjectId h)"
  by (auto simp: challengeFilter_def new_ObjectId_def split: option.splits if_splits)

lemma id_or_filter: "i = challengeFilter cid \<Longrightarrow> id_or i cid = i"
  using challengeFilter_cases [of cid] by (auto simp: id_or_def)

lemma challengeFilter_plain: "plain_ref i \<Longrightarrow> challengeFilter (String_of i) = i"
  by (cases i) (auto simp: challengeFilter_def ObjectId_isValid_def split: option.splits)

lemma populate_plain:
  "plain_ref (challengeId e) \<Longrightarrow> populate chs e = findOne (\<lambda>c. ch_id c = challengeId e) chs"
  by (cases "challengeId e") (simp_all add: populate_def ObjectId_isValid_def)

subsection \<open>Double addition\<close>

text \<open>
  An integer below \<open>2^53\<close> in magnitude is a double and is its own rounding, so sums
  of small integers are exact; \<open>2^1023 + 2^1023\<close> overflows and \<open>2^53 + 1\<close> is
  rounded to \<open>2^53\<close>. The decimal \<open>0.1\<close> is read as the double
  \<open>3602879701896397 / 2^55\<close>, and the doubles of \<open>0.1\<close> and \<open>0.2\<close> add up to
  \<open>5404319552844596 / 2^54\<close>, which prints as \<open>0.30000000000000004\<close>.
\<close>

lemma round_half_even_int: "round_half_even (of_int m) = m"
  by (simp add: round_half_even_def)


lemma round_double_overflow: "round_double (2 ^ 1023 + 2 ^ 1023) = PosInfinity"
proof -
  have l: "\<lfloor>log 2 ((2::real) ^ 1023 + 2 ^ 1023)\<rfloor> = 1024"
    by (subst floor_log_eq_powr_iff) (simp_all add: powr_realpow [symmetric])
  have u: "(2::real) powr 972 = 2 ^ 972" by (simp add: powr_realpow [symmetric])
  have h: "round_half_even (((2::real) ^ 1023 + 2 ^ 1023) / 2 ^ 972) = 2 ^ 52"
  proof -
    have "((2::real) ^ 1023 + 2 ^ 1023) / 2 ^ 972 = real_of_int (2 ^ 52)" by simp
    then show ?thesis by (simp only: round_half_even_int)
  qed
  show ?thesis
    using l u h by (simp add: round_double_def Let_def)
qed

lemma round_double_tie: "round_double (2 ^ 53 + 1) = Finite (2 ^ 53)"
proof -
  have l: "\<lfloor>log 2 ((2::real) ^ 53 + 1)\<rfloor> = 53"
    by (subst floor_log_eq_powr_iff) (simp_all add: powr_realpow [symmetric])
  have h: "round_half_even (((2::real) ^ 53 + 1) / 2) = 2 ^ 52"
  proof -
    have f: "\<lfloor>((2::real) ^ 53 + 1) / 2\<rfloor> = 2 ^ 52" by (simp add: floor_eq_iff)
    from f show ?thesis by (simp add: round_half_even_def Let_def)
  qed
  show ?thesis
    using l h by (simp add: round_double_def Let_def)
qed

lemma js_add_overflow: "js_add (Finite (2 ^ 1023)) (Finite (2 ^ 1023)) = PosInfinity"
  using round_double_overflow by simp

lemma js_add_rounds: "js_add (Finite (2 ^ 53)) (Finite 1) = Finite (2 ^ 53)"
  using round_double_tie by simp


lemma round_double_tenth: "round_double (1 / 10) = Finite (3602879701896397 / 2 ^ 55)"
proof -
  have l: "\<lfloor>log 2 ((1::real) / 10)\<rfloor> = - 4"
    by (subst floor_log_eq_powr_iff) (simp_all add: powr_minus_divide)
  have h: "round_half_even ((1::real) / 10 / (1 / 2 ^ 56)) = 7205759403792794"
  proof -
    have f: "\<lfloor>(1::real) / 10 / (1 / 2 ^ 56)\<rfloor> = 7205759403792793" by (simp add: floor_eq_iff)
    from f show ?thesis by (simp add: round_half_even_def Let_def)
  qed
  show ?thesis
    using l h by (simp add: round_double_def Let_def powr_minus_divide)
qed

lemma js_add_tenths:
  "js_add (Finite (3602879701896397 / 2 ^ 55)) (Finite (3602879701896397 / 2 ^ 54))
     = Finite (5404319552844596 / 2 ^ 54)"
proof -
  have l: "\<lfloor>log 2 ((3602879701896397::real) / 2 ^ 55 + 3602879701896397 / 2 ^ 54)\<rfloor> = - 2"
    by (subst floor_log_eq_powr_iff) (simp_all add: powr_minus_divide)
  have h: "round_half_even (((3602879701896397::real) / 2 ^ 55 + 3602879701896397 / 2 ^ 54) / (1 / 2 ^ 54))
             = 5404319552844596"
  proof -
    have f: "\<lfloor>((3602879701896397::real) / 2 ^ 55 + 3602879701896397 / 2 ^ 54) / (1 / 2 ^ 54)\<rfloor>
               = 5404319552844595" by (simp add: floor_eq_iff)
    from f show ?thesis by (simp add: round_half_even_def Let_def)
  qed
  show ?thesis
    using l h by (simp add: round_double_def Let_def powr_minus_divide)
qed

subsection \<open>The join handler\<close>

lemma join_not_found:
  assumes "challengeFilter cid \<notin> ch_id ` set (challenges s)"
  shows "join now newId u cid s = ((404, Message ''Challenge not found''), s)"
proof -
  have "\<forall>c\<in>set (challenges s). ch_id c \<noteq> challengeFilter cid"
    using assms by (metis imageI)
  then have "findOne (\<lambda>c. ch_id c = challengeFilter cid) (challenges s) = None"
    by (simp add: findOne_None_iff)
  then show ?thesis by (simp add: join_def)
qed

lemma join_found:
  assumes "challengeFilter cid \<in> ch_id ` set (challenges s)"
  shows "\<exists>pre ch post. challenges s = pre @ ch # post \<and> ch_id ch = challengeFilter cid \<and>
           (\<forall>c\<in>set pre. ch_id c \<noteq> challengeFilter cid) \<and>
           findOne (\<lambda>c. ch_id c = challengeFilter cid) (challenges s) = Some ch"
proof -
  from assms have "findOne (\<lambda>c. ch_id c = challengeFilter cid) (challenges s) \<noteq> None"
    by (auto simp: findOne_None_iff)
  then obtain ch where f: "findOne (\<lambda>c. ch_id c = challengeFilter cid) (challenges s) = Some ch"
    by blast
  from findOne_split [OF f] f show ?thesis by blast
qed


lemma join_fresh:
  assumes c: "challenges s = pre @ ch # post" "ch_id ch = challengeFilter cid"
      "\<forall>c\<in>set pre. ch_id c \<noteq> challengeFilter cid"
    and e: "\<forall>e\<in>set (userChallenges s). \<not> (userId e = u \<and> challengeId e = challengeFilter cid)"
  shows "join now newId u cid s =
      ((201, Joined newId (newEnrollment now newId u (challengeFilter cid))),
       s\<lparr> userChallenges := userChallenges s @ [newEnrollment now newId u (challengeFilter cid)],
          challenges := pre @ ch\<lparr> participants := participants ch + 1 \<rparr> # post \<rparr>)"
proof -
  have f: "findOne (\<lambda>c. ch_id c = challengeFilter cid) (challenges s) = Some ch"
    using c by (simp add: findOne_append_first)
  have r: "id_or (ch_id ch) cid = challengeFilter cid" using c(2) by (simp add: id_or_filter)
  have n: "findOne (\<lambda>e. userId e = u \<and> challengeId e = challengeFilter cid) (userChallenges s) = None"
    using e by (auto simp: findOne_None_iff)
  have u: "updateOne (\<lambda>c. ch_id c = challengeFilter cid)
             (\<lambda>c. c\<lparr> participants := participants c + 1 \<rparr>) (pre @ ch # post)
           = pre @ ch\<lparr> participants := participants ch + 1 \<rparr> # post"
    using c by (simp add: updateOne_first)
  show ?thesis
    using f r n u c(1) by (simp add: join_def Let_def insertOne_def newEnrollment_def)
qed

lemma join_challenges:
  "challenges (snd (join now newId u cid s)) = challenges s \<or>
   (\<exists>r. challenges (snd (join now newId u cid s)) =
      updateOne (\<lambda>c. ch_id c = r) (\<lambda>c. c\<lparr> participants := participants c + 1 \<rparr>) (challenges s))"
  by (auto simp: join_def Let_def split: option.splits)

text \<open>
  The join handler of the API file on any route parameter: 404 and the same database
  when no challenge has the identifier the parameter names; otherwise, when the caller
  has no enrollment in it, 201, a new enrollment appended (\<open>Ongoing\<close>, progress 0, no
  log entry, both dates the current time) and the counter of that challenge raised by
  one, no other document changed.
\<close>

theorem join_creates_enrollment:
  "(challengeFilter cid \<notin> ch_id ` set (challenges s) \<longrightarrow>
      join now newId u cid s = ((404, Message ''Challenge not found''), s)) \<and>
   (challengeFilter cid \<in> ch_id ` set (challenges s) \<and>
    (\<forall>e\<in>set (userChallenges s). \<not> (userId e = u \<and> challengeId e = challengeFilter cid)) \<longrightarrow>
      (\<exists>pre ch post.
         challenges s = pre @ ch # post \<and> ch_id ch = challengeFilter cid \<and>
         (\<forall>c\<in>set pre. ch_id c \<noteq> challengeFilter cid) \<and>
         join now newId u cid s =
           ((201, Joined newId
                \<lparr> uc_id = newId, userId = u, challengeId = ch_id ch, status = Ongoing,
                  progress = Finite 0, progressLogs = [], joinDate = now, lastUpdated = now \<rparr>),
            s\<lparr> userChallenges := userChallenges s @
                  [\<lparr> uc_id = newId, userId = u, challengeId = ch_id ch, status = Ongoing,
                     progress = Finite 0, progressLogs = [], joinDate = now, lastUpdated = now \<rparr>],
               challenges := pre @ ch\<lparr> participants := participants ch + 1 \<rparr> # post \<rparr>)))"
proof (intro conjI impI)
  assume "challengeFilter cid \<notin> ch_id ` set (challenges s)"
  then show "join now newId u cid s = ((404, Message ''Challenge not found''), s)"
    by (rule join_not_found)
next
  assume a: "challengeFilter cid \<in> ch_id ` set (challenges s) \<and>
    (\<forall>e\<in>set (userChallenges s). \<not> (userId e = u \<and> challengeId e = challengeFilter cid))"
  from join_found [of cid s] a obtain pre ch post where
    c: "challenges s = pre @ ch # post" "ch_id ch = challengeFilter cid"
       "\<forall>c\<in>set pre. ch_id c \<noteq> challengeFilter cid" by blast
  from join_fresh [OF c, of u now newId] a c(2)
  have "join now newId u cid s =
           ((201, Joined newId
                \<lparr> uc_id = newId, userId = u, challengeId = ch_id ch, status = Ongoing,
                  progress = Finite 0, progressLogs = [], joinDate = now, lastUpdated = now \<rparr>),
            s\<lparr> userChallenges := userChallenges s @
                  [\<lparr> uc_id = newId, userId = u, challengeId = ch_id ch, status = Ongoing,
                     progress = Finite 0, progressLogs = [], joinDate = now, lastUpdated = now \<rparr>],
               challenges := pre @ ch\<lparr> participants := participants ch + 1 \<rparr> # post \<rparr>)"
    by (simp add: newEnrollment_def)
  with c show "\<exists>pre ch post.
         challenges s = pre @ ch # post \<and> ch_id ch = challengeFilter cid \<and>
         (\<forall>c\<in>set pre. ch_id c \<noteq> challengeFilter cid) \<and>
         join now newId u cid s =
           ((201, Joined newId
                \<lparr> uc_id = newId, userId = u, challengeId = ch_id ch, status = Ongoing,
                  progress = Finite 0, progressLogs = [], joinDate = now, lastUpdated = now \<rparr>),
            s\<lparr> userChallenges := userChallenges s @
                  [\<lparr> uc_id = newId, userId = u, challengeId = ch_id ch, status = Ongoing,
                     progress = Finite 0, progressLogs = [], joinDate = now, lastUpdated = now \<rparr>],
               challenges := pre @ ch\<lparr> participants := participants ch + 1 \<rparr> # post \<rparr>)"
    by blast
qed

subsection \<open>The progress and leave handlers\<close>

lemma leave_challenges:
  "challenges (snd (leave u rid s)) = challenges s \<or>
   (\<exists>r. challenges (snd (leave u rid s)) =
      updateOne (\<lambda>c. ch_id c = r \<and> 0 < participants c)
        (\<lambda>c. c\<lparr> participants := participants c - 1 \<rparr>) (challenges s))"
  by (auto simp: leave_def Let_def split: option.splits)

lemma updateProgress_challenges:
  "challenges (snd (updateProgress now u rid body s)) = challenges s"
  by (simp add: updateProgress_def Let_def split: option.splits)

lemma leave_owner:
  assumes o: "new_ObjectId rid = Some oid"
    and f: "findOne (\<lambda>e. uc_id e = oid) (userChallenges s) = Some uc"
    and u: "userId uc = u"
  shows "leave u rid s =
    ((200, LeftChallenge),
     s\<lparr> userChallenges := deleteOne (\<lambda>e. uc_id e = oid) (userChallenges s),
        challenges := updateOne (\<lambda>c. ch_id c = challengeId uc \<and> 0 < participants c)
                        (\<lambda>c. c\<lparr> participants := participants c - 1 \<rparr>) (challenges s) \<rparr>)"
  using o f u by (simp add: leave_def Let_def)

lemma decrement_parent:
  assumes "ch_id ch = r" "\<forall>c\<in>set (pre @ post). ch_id c \<noteq> r"
  shows "updateOne (\<lambda>c. ch_id c = r \<and> 0 < participants c)
           (\<lambda>c. c\<lparr> participants := participants c - 1 \<rparr>) (pre @ ch # post)
         = pre @ ch\<lparr> participants := (if 0 < participants ch then participants ch - 1
                                          else participants ch) \<rparr> # post"
proof (cases "0 < participants ch")
  case True
  with assms show ?thesis by (simp add: updateOne_first)
next
  case False
  with assms have "\<forall>c\<in>set (pre @ ch # post). \<not> (ch_id c = r \<and> 0 < participants c)" by auto
  from updateOne_none [OF this] False show ?thesis by simp
qed

lemma setUpdates_fields:
  "uc_id (setUpdates now p e) = uc_id e \<and> userId (setUpdates now p e) = userId e \<and>
   challengeId (setUpdates now p e) = challengeId e \<and>
   progressLogs (setUpdates now p e) = progressLogs e \<and> lastUpdated (setUpdates now p e) = now"
  by (cases p) (simp_all add: setUpdates_def Let_def)

lemma setUpdates_no_number:
  "\<not> isNumber p \<Longrightarrow> progress (setUpdates now p e) = progress e \<and> status (setUpdates now p e) = status e"
  by (cases p) (simp_all add: setUpdates_def)

lemma pushLog_find:
  assumes "findOne (\<lambda>e. uc_id e = oid) ucs = Some uc"
  shows "findOne (\<lambda>e. uc_id e = oid) (pushLog now a oid ucs) =
     Some (case a of JNumber v \<Rightarrow> uc\<lparr> progressLogs := progressLogs uc @ [\<lparr> log_date = now, log_value = v \<rparr>] \<rparr>
           | _ \<Rightarrow> uc)"
proof (cases a)
  case (JNumber v)
  from findOne_SomeD [OF assms] have "uc_id uc = oid" by simp
  then show ?thesis using JNumber assms
    by (simp add: pushLog_def findOne_updateOne)
qed (use assms in \<open>simp_all add: pushLog_def\<close>)

lemma updateProgress_owner:
  assumes o: "new_ObjectId rid = Some oid"
    and f: "findOne (\<lambda>e. uc_id e = oid) (userChallenges s) = Some uc"
    and u: "userId uc = u"
  shows "\<exists>s'. updateProgress now u rid body s =
      ((200, Updated (Some (setUpdates now (body_progress body)
           (case body_addLogValue body of
              JNumber v \<Rightarrow> uc\<lparr> progressLogs := progressLogs uc @ [\<lparr> log_date = now, log_value = v \<rparr>] \<rparr>
            | _ \<Rightarrow> uc)))), s') \<and>
     challenges s' = challenges s \<and>
     findOne (\<lambda>e. uc_id e = oid) (userChallenges s') =
       Some (setUpdates now (body_progress body)
           (case body_addLogValue body of
              JNumber v \<Rightarrow> uc\<lparr> progressLogs := progressLogs uc @ [\<lparr> log_date = now, log_value = v \<rparr>] \<rparr>
            | _ \<Rightarrow> uc))"
proof -
  let ?uc1 = "case body_addLogValue body of
              JNumber v \<Rightarrow> uc\<lparr> progressLogs := progressLogs uc @ [\<lparr> log_date = now, log_value = v \<rparr>] \<rparr>
            | _ \<Rightarrow> uc"
  have p: "findOne (\<lambda>e. uc_id e = oid) (pushLog now (body_addLogValue body) oid (userChallenges s)) = Some ?uc1"
    by (rule pushLog_find [OF f])
  from findOne_SomeD [OF p] have "uc_id ?uc1 = oid" by simp
  then have "uc_id (setUpdates now (body_progress body) ?uc1) = oid"
    by (simp add: setUpdates_def Let_def split: jsval.splits)
  from findOne_updateOne [OF p, of "setUpdates now (body_progress body)"] this
  have q: "findOne (\<lambda>e. uc_id e = oid)
          (updateOne (\<lambda>e. uc_id e = oid) (setUpdates now (body_progress body))
             (pushLog now (body_addLogValue body) oid (userChallenges s)))
        = Some (setUpdates now (body_progress body) ?uc1)" by simp
  show ?thesis using o f u q by (simp add: updateProgress_def Let_def)
qed

text \<open>
  What the two handlers answer when they refuse a request: the database is the one
  they were given. A route parameter that is not a 24 digit hex string makes
  \<open>new ObjectId\<close> throw, which the handlers report as status 500.
\<close>

lemma guards_keep_database:
  "(new_ObjectId rid = Some oid \<and> (\<forall>e\<in>set (userChallenges s). uc_id e \<noteq> oid) \<longrightarrow>
      updateProgress now u rid body s = ((404, Message ''UserChallenge not found''), s) \<and>
      leave u rid s = ((404, Message ''Not found''), s)) \<and>
   (new_ObjectId rid = Some oid \<and> findOne (\<lambda>e. uc_id e = oid) (userChallenges s) = Some uc \<and>
    userId uc \<noteq> u \<longrightarrow>
      updateProgress now u rid body s = ((403, Message ''Forbidden''), s) \<and>
      leave u rid s = ((403, Message ''Forbidden''), s)) \<and>
   (new_ObjectId rid = None \<longrightarrow>
      updateProgress now u rid body s = ((500, Message ''Failed to update progress''), s) \<and>
      leave u rid s = ((500, Message ''Failed to leave challenge''), s))"
proof (intro conjI impI)
  assume "new_ObjectId rid = Some oid \<and> (\<forall>e\<in>set (userChallenges s). uc_id e \<noteq> oid)"
  then have "new_ObjectId rid = Some oid" "findOne (\<lambda>e. uc_id e = oid) (userChallenges s) = None"
    by (simp_all add: findOne_None_iff)
  then show "updateProgress now u rid body s = ((404, Message ''UserChallenge not found''), s)"
    "leave u rid s = ((404, Message ''Not found''), s)"
    by (simp_all add: updateProgress_def leave_def)
next
  assume "new_ObjectId rid = Some oid \<and> findOne (\<lambda>e. uc_id e = oid) (userChallenges s) = Some uc \<and>
    userId uc \<noteq> u"
  then show "updateProgress now u rid body s = ((403, Message ''Forbidden''), s)"
    "leave u rid s = ((403, Message ''Forbidden''), s)"
    by (simp_all add: updateProgress_def leave_def)
next
  assume "new_ObjectId rid = None"
  then show "updateProgress now u rid body s = ((500, Message ''Failed to update progress''), s)"
    "leave u rid s = ((500, Message ''Failed to leave challenge''), s)"
    by (simp_all add: updateProgress_def leave_def)
qed

subsection \<open>The clamp\<close>

lemma clamp_range:
  "n \<noteq> NaN \<Longrightarrow> \<exists>r. Math_min (Finite 100) (Math_max (Finite 0) n) = Finite r \<and> 0 \<le> r \<and> r \<le> 100"
  by (cases n) (auto simp: Math_min_def Math_max_def)

lemma clamp_value:
  "n \<noteq> NaN \<Longrightarrow>
   Math_min (Finite 100) (Math_max (Finite 0) n) =
     (if js_le n (Finite 0) then Finite 0 else if js_le (Finite 100) n then Finite 100 else n)"
  by (cases n) (auto simp: Math_min_def Math_max_def)

lemma clamp_ge: "n \<noteq> NaN \<Longrightarrow>
   js_ge (Math_min (Finite 100) (Math_max (Finite 0) n)) (Finite 100) = js_le (Finite 100) n"
  by (cases n) (auto simp: Math_min_def Math_max_def js_ge_def)

subsection \<open>Invariants of a run\<close>

lemma join_nonneg: "nonneg_counters s \<Longrightarrow> nonneg_counters (snd (join now newId u cid s))"
  using join_challenges [of now newId u cid s]
  by (fastforce simp: nonneg_counters_def dest!: set_updateOne)

lemma leave_nonneg: "nonneg_counters s \<Longrightarrow> nonneg_counters (snd (leave u rid s))"
  using leave_challenges [of u rid s]
  by (fastforce simp: nonneg_counters_def dest!: set_updateOne)

lemma handle_nonneg: "nonneg_counters s \<Longrightarrow> nonneg_counters (snd (handle r s))"
proof (cases r)
  case (Join hdr now newId cid)
  then show "nonneg_counters s \<Longrightarrow> ?thesis"
    by (simp add: join_nonneg split: option.splits)
next
  case (ListMine hdr)
  then show "nonneg_counters s \<Longrightarrow> ?thesis"
    by (simp add: listMine_def split: option.splits)
next
  case (UpdateProgress hdr now rid body)
  then show "nonneg_counters s \<Longrightarrow> ?thesis"
    by (simp add: nonneg_counters_def updateProgress_challenges split: option.splits)
next
  case (Leave hdr rid)
  then show "nonneg_counters s \<Longrightarrow> ?thesis"
    by (simp add: leave_nonneg split: option.splits)
next
  case GetStats
  then show "nonneg_counters s \<Longrightarrow> ?thesis"
    by (simp add: computeStats_def)
qed

lemma run_nonneg: "nonneg_counters s \<Longrightarrow> nonneg_counters (run rs s)"
  by (induction rs arbitrary: s) (simp_all add: handle_nonneg)

lemma setUpdates_ok:
  "p \<noteq> JNumber NaN \<Longrightarrow> progress_ok e \<Longrightarrow> progress_ok (setUpdates now p e)"
proof (cases p)
  case (JNumber n)
  assume "p \<noteq> JNumber NaN"
  with JNumber have n: "n \<noteq> NaN" by simp
  from clamp_range [OF n] obtain r where
    r: "Math_min (Finite 100) (Math_max (Finite 0) n) = Finite r" "0 \<le> r" "r \<le> 100" by blast
  with JNumber show "progress_ok (setUpdates now p e)"
    by (simp add: setUpdates_def progress_ok_def Let_def js_ge_def)
qed (simp_all add: setUpdates_def progress_ok_def)

lemma pushLog_ok:
  assumes "\<forall>e\<in>set ucs. progress_ok e"
  shows "\<forall>e\<in>set (pushLog now a oid ucs). progress_ok e"
proof (cases a)
  case (JNumber v)
  have "\<And>y. y \<in> set (pushLog now a oid ucs) \<Longrightarrow> progress_ok y"
  proof -
    fix y assume "y \<in> set (pushLog now a oid ucs)"
    with JNumber have "y \<in> set ucs \<or>
        (\<exists>x\<in>set ucs. y = x\<lparr> progressLogs := progressLogs x @ [\<lparr> log_date = now, log_value = v \<rparr>] \<rparr>)"
      by (auto simp: pushLog_def dest: set_updateOne)
    with assms show "progress_ok y" by (auto simp: progress_ok_def)
  qed
  then show ?thesis by blast
qed (use assms in \<open>simp_all add: pushLog_def\<close>)

lemma updateProgress_inv:
  assumes i: "progress_inv s" and n: "body_progress body \<noteq> JNumber NaN"
  shows "progress_inv (snd (updateProgress now u rid body s))"
proof -
  have "\<And>oid. \<forall>e\<in>set (updateOne (\<lambda>u. uc_id u = oid) (setUpdates now (body_progress body))
            (pushLog now (body_addLogValue body) oid (userChallenges s))). progress_ok e"
  proof
    fix oid y
    assume "y \<in> set (updateOne (\<lambda>u. uc_id u = oid) (setUpdates now (body_progress body))
            (pushLog now (body_addLogValue body) oid (userChallenges s)))"
    from set_updateOne [OF this] pushLog_ok [of "userChallenges s" now "body_addLogValue body" oid] i
    show "progress_ok y" by (auto simp: progress_inv_def setUpdates_ok [OF n])
  qed
  then show ?thesis using i
    by (auto simp: updateProgress_def Let_def progress_inv_def split: option.splits)
qed

lemma join_inv: "progress_inv s \<Longrightarrow> progress_inv (snd (join now newId u cid s))"
  by (auto simp: join_def Let_def progress_inv_def insertOne_def progress_ok_def js_ge_def
           split: option.splits)

lemma leave_inv: "progress_inv s \<Longrightarrow> progress_inv (snd (leave u rid s))"
  by (auto simp: leave_def Let_def progress_inv_def split: option.splits dest: set_deleteOne)

lemma handle_inv:
  "progress_inv s \<Longrightarrow> not_NaN_progress r \<Longrightarrow> progress_inv (snd (handle r s))"
  by (cases r)
     (simp_all add: join_inv leave_inv updateProgress_inv listMine_def computeStats_def
        split: option.splits)

lemma run_inv:
  "progress_inv s \<Longrightarrow> \<forall>r\<in>set rs. not_NaN_progress r \<Longrightarrow> progress_inv (run rs s)"
  by (induction rs arbitrary: s) (simp_all add: handle_inv)

text \<open>
  Plain identifiers stay plain: a join stores the \<open>_id\<close> of the challenge it found.
\<close>

lemma join_plain: "plain_db s \<Longrightarrow> plain_db (snd (join now newId u cid s))"
proof (cases "findOne (\<lambda>c. ch_id c = challengeFilter cid) (challenges s)")
  case None
  assume "plain_db s"
  with None show ?thesis by (simp add: join_def)
next
  case (Some ch)
  assume p: "plain_db s"
  from findOne_SomeD [OF Some] have c: "ch \<in> set (challenges s)" "ch_id ch = challengeFilter cid"
    by simp_all
  then have r: "id_or (ch_id ch) cid = ch_id ch" by (simp add: id_or_filter)
  from p c(1) have pr: "plain_ref (ch_id ch)" unfolding plain_db_def by blast
  have k: "\<forall>c\<in>set (updateOne (\<lambda>c. ch_id c = ch_id ch)
              (\<lambda>c. c\<lparr> participants := participants c + 1 \<rparr>) (challenges s)). plain_ref (ch_id c)"
    using p by (auto simp: plain_db_def dest!: set_updateOne)
  show ?thesis
    using Some r p pr k
    by (auto simp: join_def Let_def insertOne_def plain_db_def split: option.splits)
qed

lemma updateProgress_plain: "plain_db s \<Longrightarrow> plain_db (snd (updateProgress now u rid body s))"
proof -
  assume p: "plain_db s"
  have "\<And>oid. \<forall>e\<in>set (updateOne (\<lambda>u. uc_id u = oid) (setUpdates now (body_progress body))
            (pushLog now (body_addLogValue body) oid (userChallenges s))). plain_ref (challengeId e)"
  proof
    fix oid y
    assume "y \<in> set (updateOne (\<lambda>u. uc_id u = oid) (setUpdates now (body_progress body))
            (pushLog now (body_addLogValue body) oid (userChallenges s)))"
    from set_updateOne [OF this]
    have "\<exists>x\<in>set (pushLog now (body_addLogValue body) oid (userChallenges s)).
            challengeId y = challengeId x"
      by (auto simp: setUpdates_fields)
    then obtain x where x: "x \<in> set (pushLog now (body_addLogValue body) oid (userChallenges s))"
      "challengeId y = challengeId x" by blast
    from x(1) have "\<exists>z\<in>set (userChallenges s). challengeId x = challengeId z"
      by (cases "body_addLogValue body") (auto simp: pushLog_def dest!: set_updateOne)
    with x(2) p show "plain_ref (challengeId y)" by (auto simp: plain_db_def)
  qed
  with p show "plain_db (snd (updateProgress now u rid body s))"
    by (auto simp: updateProgress_def Let_def plain_db_def split: option.splits)
qed

lemma leave_plain: "plain_db s \<Longrightarrow> plain_db (snd (leave u rid s))"
  by (auto simp: leave_def Let_def plain_db_def split: option.splits
           dest!: set_deleteOne set_updateOne)

lemma handle_plain: "plain_db s \<Longrightarrow> plain_db (snd (handle r s))"
  by (cases r)
     (simp_all add: join_plain leave_plain updateProgress_plain listMine_def computeStats_def
        split: option.splits)

lemma run_plain: "plain_db s \<Longrightarrow> plain_db (run rs s)"
  by (induction rs arbitrary: s) (simp_all add: handle_plain)

subsection \<open>The server file\<close>

text \<open>
  On a route parameter that is an ObjectId in its written form the two join handlers
  agree, and on plain challenge identifiers the two list handlers agree.
\<close>

lemma server_join_agrees:
  assumes "new_ObjectId cid = Some (ObjectId cid)"
  shows "server_join now newId u cid s = join now newId u cid s"
proof -
  from assms have f: "challengeFilter cid = ObjectId cid" by (simp add: challengeFilter_def)
  show ?thesis
  proof (cases "findOne (\<lambda>c. ch_id c = ObjectId cid) (challenges s)")
    case None
    with assms f show ?thesis by (simp add: server_join_def join_def)
  next
    case (Some ch)
    from findOne_SomeD [OF Some] have "ch_id ch = ObjectId cid" by simp
    then have "id_or (ch_id ch) cid = ObjectId cid" by (simp add: id_or_def)
    with assms f Some show ?thesis by (simp add: server_join_def join_def Let_def)
  qed
qed

lemma server_join_malformed:
  "new_ObjectId cid = None \<Longrightarrow>
   server_join now newId u cid s = ((500, Message ''Failed to join challenge''), s)"
  by (simp add: server_join_def)

lemma server_listMine_agrees:
  assumes "\<forall>e\<in>set (userChallenges s). userId e = u \<longrightarrow> plain_ref (challengeId e)"
  shows "server_listMine u s = listMine u s"
proof -
  have "map (\<lambda>e. (e, populate (challenges s) e)) (filter (\<lambda>e. userId e = u) (userChallenges s))
      = map (\<lambda>e. (e, findOne (\<lambda>c. ch_id c = challengeId e) (challenges s)))
          (filter (\<lambda>e. userId e = u) (userChallenges s))"
    using assms by (intro map_cong refl) (simp add: populate_plain)
  then show ?thesis by (simp add: server_listMine_def listMine_def)
qed

text \<open>
  On plain challenge identifiers the list handler of the API file pairs each of the
  caller's enrollments with the challenge whose \<open>_id\<close> equals its \<open>challengeId\<close>.
\<close>

lemma listMine_pairs_plain:
  assumes "\<forall>e\<in>set (userChallenges s). userId e = u \<longrightarrow> plain_ref (challengeId e)"
  shows "listMine u s =
      ((200, Populated (map (\<lambda>e. (e, findOne (\<lambda>c. ch_id c = challengeId e) (challenges s)))
                 (filter (\<lambda>e. userId e = u) (userChallenges s)))), s) \<and>
    (\<forall>e\<in>set (userChallenges s).
       findOne (\<lambda>c. ch_id c = challengeId e) (challenges s) = None \<longleftrightarrow>
       challengeId e \<notin> ch_id ` set (challenges s))"
proof
  have "map (\<lambda>e. (e, populate (challenges s) e)) (filter (\<lambda>e. userId e = u) (userChallenges s))
      = map (\<lambda>e. (e, findOne (\<lambda>c. ch_id c = challengeId e) (challenges s)))
          (filter (\<lambda>e. userId e = u) (userChallenges s))"
    using assms by (intro map_cong refl) (simp add: populate_plain)
  then show "listMine u s =
      ((200, Populated (map (\<lambda>e. (e, findOne (\<lambda>c. ch_id c = challengeId e) (challenges s)))
                 (filter (\<lambda>e. userId e = u) (userChallenges s)))), s)"
    by (simp add: listMine_def)
  show "\<forall>e\<in>set (userChallenges s).
       findOne (\<lambda>c. ch_id c = challengeId e) (challenges s) = None \<longleftrightarrow>
       challengeId e \<notin> ch_id ` set (challenges s)"
    by (simp add: findOne_key_None)
qed

subsection \<open>Log entries\<close>

lemma logCall_step:
  assumes ne: "u \<noteq> []" and o: "new_ObjectId rid = Some oid"
    and f: "findOne (\<lambda>e. uc_id e = oid) (userChallenges s) = Some uc" and w: "userId uc = u"
  shows "findOne (\<lambda>e. uc_id e = oid) (userChallenges (snd (handle (logCall u rid (t, p, v)) s)))
     = Some (setUpdates t p (uc\<lparr> progressLogs := progressLogs uc @ [\<lparr> log_date = t, log_value = v \<rparr>] \<rparr>))"
proof -
  from updateProgress_owner [OF o f w, of t "\<lparr> body_progress = p, body_addLogValue = JNumber v \<rparr>"]
  obtain s' where
    "updateProgress t u rid \<lparr> body_progress = p, body_addLogValue = JNumber v \<rparr> s
       = ((200, Updated (Some (setUpdates t p
            (uc\<lparr> progressLogs := progressLogs uc @ [\<lparr> log_date = t, log_value = v \<rparr>] \<rparr>)))), s')"
    "findOne (\<lambda>e. uc_id e = oid) (userChallenges s')
       = Some (setUpdates t p (uc\<lparr> progressLogs := progressLogs uc @ [\<lparr> log_date = t, log_value = v \<rparr>] \<rparr>))"
    by auto
  with ne show ?thesis by (simp add: logCall_def requireAuth_def)
qed

lemma logCalls_run:
  assumes ne: "u \<noteq> []" and o: "new_ObjectId rid = Some oid"
  shows "findOne (\<lambda>e. uc_id e = oid) (userChallenges s) = Some uc \<Longrightarrow> userId uc = u \<Longrightarrow>
     \<exists>uc'. findOne (\<lambda>e. uc_id e = oid) (userChallenges (run (map (logCall u rid) calls) s)) = Some uc' \<and>
        progressLogs uc' = progressLogs uc @ map logged calls \<and>
        ((\<forall>c\<in>set calls. \<not> isNumber (fst (snd c))) \<longrightarrow>
            progress uc' = progress uc \<and> status uc' = status uc)"
proof (induction calls arbitrary: s uc)
  case Nil
  then show ?case by simp
next
  case (Cons c calls)
  obtain t p v where c: "c = (t, p, v)" by (cases c) auto
  let ?uc1 = "setUpdates t p (uc\<lparr> progressLogs := progressLogs uc @ [\<lparr> log_date = t, log_value = v \<rparr>] \<rparr>)"
  let ?s1 = "snd (handle (logCall u rid c) s)"
  have f1: "findOne (\<lambda>e. uc_id e = oid) (userChallenges ?s1) = Some ?uc1"
    unfolding c by (rule logCall_step [OF ne o Cons.prems])
  have u1: "userId ?uc1 = u" using Cons.prems(2) by (simp add: setUpdates_fields)
  from Cons.IH [OF f1 u1] obtain uc' where
    r: "findOne (\<lambda>e. uc_id e = oid) (userChallenges (run (map (logCall u rid) calls) ?s1)) = Some uc'"
       "progressLogs uc' = progressLogs ?uc1 @ map logged calls"
       "(\<forall>c\<in>set calls. \<not> isNumber (fst (snd c))) \<longrightarrow>
            progress uc' = progress ?uc1 \<and> status uc' = status ?uc1" by blast
  have l: "progressLogs uc' = progressLogs uc @ map logged (c # calls)"
    using r(2) c by (simp add: setUpdates_fields logged_def)
  have q: "(\<forall>c\<in>set (c # calls). \<not> isNumber (fst (snd c))) \<longrightarrow>
            progress uc' = progress uc \<and> status uc' = status uc"
    using r(3) c by (simp add: setUpdates_no_number)
  from r(1) l q show ?case by auto
qed

subsection \<open>The statistics\<close>




subsection \<open>The small database\<close>

lemma demo_challenge_oid: "new_ObjectId demo_challenge_id = Some (ObjectId demo_challenge_id)"
  by (simp add: new_ObjectId_def isHex24_def hexDigit_def toLowerHex_def demo_challenge_id_def)

lemma demo_enrollment_oid: "new_ObjectId demo_enrollment_id = Some (ObjectId demo_enrollment_id)"
  by (simp add: new_ObjectId_def isHex24_def hexDigit_def toLowerHex_def demo_enrollment_id_def)

lemma demo_orphan_oid: "new_ObjectId demo_orphan_id = Some (ObjectId demo_orphan_id)"
  by (simp add: new_ObjectId_def isHex24_def hexDigit_def toLowerHex_def demo_orphan_id_def)

lemma demo_filter: "challengeFilter demo_challenge_id = ObjectId demo_challenge_id"
  by (simp add: challengeFilter_def demo_challenge_oid)

lemma plain_filter: "challengeFilter ''tree-planting'' = IdString ''tree-planting''"
  by (simp add: challengeFilter_def new_ObjectId_def isHex24_def)

lemma demo_run_join: "snd (handle demo_join demo_db) = demo_joined"
  by (simp add: demo_join_def demo_db_def demo_joined_def demo_enrollment_def requireAuth_def
        join_def demo_filter findOne_def id_or_def insertOne_def Let_def)

lemma demo_db_has_challenge: "challengeFilter demo_challenge_id \<in> ch_id ` set (challenges demo_db)"
  by (simp add: demo_filter demo_db_def)


lemma demo_stats_mine:
  "filter (\<lambda>e. userId e = ''ana@eco.org'') (userChallenges demo_stats) = [demo_logged, demo_orphan]"
  by (simp add: demo_stats_def demo_logged_def demo_orphan_def demo_finished_def demo_enrollment_def)


lemma demo_string_filter: "challengeFilter demo_string_id = IdString demo_string_id"
  by (simp add: challengeFilter_def new_ObjectId_def isHex24_def hexDigit_def toLowerHex_def
        demo_string_id_def)

lemma demo_string_populate:
  "populate (challenges demo_seeded_joined) demo_string_enrollment = None"
  by (simp add: populate_def new_ObjectId_def isHex24_def hexDigit_def toLowerHex_def
        demo_string_id_def demo_string_enrollment_def demo_seeded_joined_def findOne_def)

theorem join_creates_enrollment_witness:
  "join 1 (ObjectId demo_enrollment_id) ''ana@eco.org'' ''tree-planting'' demo_db
     = ((404, Message ''Challenge not found''), demo_db) \<and>
   (\<exists>pre ch post.
         challenges demo_db = pre @ ch # post \<and> ch_id ch = challengeFilter demo_challenge_id \<and>
         (\<forall>c\<in>set pre. ch_id c \<noteq> challengeFilter demo_challenge_id) \<and>
         join 1 (ObjectId demo_enrollment_id) ''ana@eco.org'' demo_challenge_id demo_db =
           ((201, Joined (ObjectId demo_enrollment_id)
                \<lparr> uc_id = ObjectId demo_enrollment_id, userId = ''ana@eco.org'',
                  challengeId = ch_id ch, status = Ongoing,
                  progress = Finite 0, progressLogs = [], joinDate = 1, lastUpdated = 1 \<rparr>),
            demo_db\<lparr> userChallenges := userChallenges demo_db @
                  [\<lparr> uc_id = ObjectId demo_enrollment_id, userId = ''ana@eco.org'',
                     challengeId = ch_id ch, status = Ongoing,
                     progress = Finite 0, progressLogs = [], joinDate = 1, lastUpdated = 1 \<rparr>],
               challenges := pre @ ch\<lparr> participants := participants ch + 1 \<rparr> # post \<rparr>))"
proof -
  have a: "challengeFilter ''tree-planting'' \<notin> ch_id ` set (challenges demo_db)"
    by (simp add: plain_filter demo_db_def)
  have b: "\<forall>e\<in>set (userChallenges demo_db).
             \<not> (userId e = ''ana@eco.org'' \<and> challengeId e = challengeFilter demo_challenge_id)"
    by (simp add: demo_db_def)
  from a join_creates_enrollment [where cid = "''tree-planting''" and s = demo_db and now = 1
      and newId = "ObjectId demo_enrollment_id" and u = "''ana@eco.org''"]
  have 1: "join 1 (ObjectId demo_enrollment_id) ''ana@eco.org'' ''tree-planting'' demo_db
     = ((404, Message ''Challenge not found''), demo_db)" by blast
  from b demo_db_has_challenge
    join_creates_enrollment [where cid = demo_challenge_id and s = demo_db and now = 1
      and newId = "ObjectId demo_enrollment_id" and u = "''ana@eco.org''"]
  have 2: "\<exists>pre ch post.
         challenges demo_db = pre @ ch # post \<and> ch_id ch = challengeFilter demo_challenge_id \<and>
         (\<forall>c\<in>set pre. ch_id c \<noteq> challengeFilter demo_challenge_id) \<and>
         join 1 (ObjectId demo_enrollment_id) ''ana@eco.org'' demo_challenge_id demo_db =
           ((201, Joined (ObjectId demo_enrollment_id)
                \<lparr> uc_id = ObjectId demo_enrollment_id, userId = ''ana@eco.org'',
                  challengeId = ch_id ch, status = Ongoing,
                  progress = Finite 0, progressLogs = [], joinDate = 1, lastUpdated = 1 \<rparr>),
            demo_db\<lparr> userChallenges := userChallenges demo_db @
                  [\<lparr> uc_id = ObjectId demo_enrollment_id, userId = ''ana@eco.org'',
                     challengeId = ch_id ch, status = Ongoing,
                     progress = Finite 0, progressLogs = [], joinDate = 1, lastUpdated = 1 \<rparr>],
               challenges := pre @ ch\<lparr> participants := participants ch + 1 \<rparr> # post \<rparr>)"
    by blast
  from 1 2 show ?thesis by blast
qed

lemma listMine_pairs_plain_example:
  "listMine ''ana@eco.org'' demo_stats =
     ((200, Populated
         [(demo_logged, Some \<lparr> ch_id = ObjectId demo_challenge_id, title = ''Plastic-free July'',
                               participants = 1 \<rparr>),
          (demo_orphan, None)]), demo_stats)"
proof -
  have v: "\<not> ObjectId_isValid ''tree-planting''"
    by (simp add: ObjectId_isValid_def new_ObjectId_def isHex24_def)
  have p: "\<forall>e\<in>set (userChallenges demo_stats).
             userId e = ''ana@eco.org'' \<longrightarrow> plain_ref (challengeId e)"
    by (simp add: demo_stats_def demo_logged_def demo_orphan_def demo_finished_def
          demo_enrollment_def demo_challenge_oid v)
  have c: "challenges demo_stats =
      [\<lparr> ch_id = ObjectId demo_challenge_id, title = ''Plastic-free July'', participants = 1 \<rparr>]"
    by (simp add: demo_stats_def demo_joined_def demo_db_def)
  from listMine_pairs_plain [OF p]
  have "listMine ''ana@eco.org'' demo_stats =
      ((200, Populated (map (\<lambda>e. (e, findOne (\<lambda>c. ch_id c = challengeId e) (challenges demo_stats)))
                 (filter (\<lambda>e. userId e = ''ana@eco.org'') (userChallenges demo_stats)))), demo_stats)"
    by blast
  then show ?thesis
    by (simp add: demo_stats_mine c findOne_def demo_logged_def demo_enrollment_def demo_orphan_def)
qed

text \<open>
  A route parameter in upper-case hex digits: the server file looks the ObjectId up,
  the API file the string.
\<close>

lemma joins_differ_on_upper_case_id:
  "fst (server_join 1 (ObjectId demo_enrollment_id) ''ana@eco.org'' demo_string_id demo_db)
     = (201, Joined (ObjectId demo_enrollment_id) demo_enrollment) \<and>
   join 1 (ObjectId demo_enrollment_id) ''ana@eco.org'' demo_string_id demo_db
     = ((404, Message ''Challenge not found''), demo_db)"
proof -
  have o: "new_ObjectId demo_string_id = Some (ObjectId demo_challenge_id)"
    by (simp add: new_ObjectId_def isHex24_def hexDigit_def toLowerHex_def demo_string_id_def
          demo_challenge_id_def)
  have s: "fst (server_join 1 (ObjectId demo_enrollment_id) ''ana@eco.org'' demo_string_id demo_db)
     = (201, Joined (ObjectId demo_enrollment_id) demo_enrollment)"
    by (simp add: server_join_def o demo_db_def findOne_def Let_def demo_enrollment_def)
  have j: "join 1 (ObjectId demo_enrollment_id) ''ana@eco.org'' demo_string_id demo_db
     = ((404, Message ''Challenge not found''), demo_db)"
    by (simp add: join_def demo_string_filter demo_db_def findOne_def)
  from s j show ?thesis by blast
qed

text \<open>
  The scenario of a join, a second join, a leave and a second leave by one user: 201,
  then 200 with the stored enrollment, then 200 with the counter back at 0, then 404
  with the counter still 0.
\<close>

lemma join_leave_scenario:
  "handle demo_join demo_db = ((201, Joined (ObjectId demo_enrollment_id) demo_enrollment), demo_joined) \<and>
   handle (Join (Some ''ana@eco.org'') 5 (ObjectId demo_orphan_id) demo_challenge_id) demo_joined
     = ((200, AlreadyJoined demo_enrollment), demo_joined) \<and>
   handle (Leave (Some ''ana@eco.org'') demo_enrollment_id) demo_joined
     = ((200, LeftChallenge), demo_db) \<and>
   handle (Leave (Some ''ana@eco.org'') demo_enrollment_id) demo_db
     = ((404, Message ''Not found''), demo_db)"
  by (simp add: demo_join_def demo_db_def demo_joined_def demo_enrollment_def requireAuth_def
        join_def leave_def demo_filter demo_enrollment_oid findOne_def id_or_def insertOne_def
        Let_def)

text \<open>
  The state with the two infinite log entries is reached through the handlers: the
  JSON literals \<open>1e999\<close> and \<open>-1e999\<close> are read as the two infinities.
\<close>

lemma demo_infinities_reachable:
  "run [demo_join,
        UpdateProgress (Some ''ana@eco.org'') 2 demo_enrollment_id
          \<lparr> body_progress = JUndefined, body_addLogValue = JNumber PosInfinity \<rparr>,
        UpdateProgress (Some ''ana@eco.org'') 3 demo_enrollment_id
          \<lparr> body_progress = JUndefined, body_addLogValue = JNumber NegInfinity \<rparr>] demo_db
   = demo_infinities"
  by (simp add: demo_run_join demo_joined_def demo_enrollment_def requireAuth_def
        updateProgress_def demo_enrollment_oid findOne_def pushLog_def setUpdates_def
        Let_def demo_infinities_def)

section \<open>The claims\<close>



text \<open>
  Claim C2. Along any sequence of requests as the handlers receive them, every
  enrollment keeps its progress between 0 and 100 and is \<open>Finished\<close> exactly when its
  progress is at least 100. A progress update by the owner with a number in the
  \<open>progress\<close> field, finite or an infinity, stores that number clamped to the range 0
  to 100 and sets the status from the clamped number alone, whatever the log holds.
\<close>

theorem progress_clamped:
  "(progress_inv s \<and> (\<forall>r\<in>set rs. not_NaN_progress r) \<longrightarrow> progress_inv (run rs s)) \<and>
   (new_ObjectId rid = Some oid \<and>
    findOne (\<lambda>e. uc_id e = oid) (userChallenges s) = Some uc \<and> userId uc = u \<and>
    body_progress body = JNumber n \<and> n \<noteq> NaN \<longrightarrow>
      (\<exists>uc' s'. updateProgress now u rid body s = ((200, Updated (Some uc')), s') \<and>
         findOne (\<lambda>e. uc_id e = oid) (userChallenges s') = Some uc' \<and>
         progress uc' = (if js_le n (Finite 0) then Finite 0
                         else if js_le (Finite 100) n then Finite 100 else n) \<and>
         status uc' = (if js_le (Finite 100) n then Finished else Ongoing)))"
proof (intro conjI impI)
  assume "progress_inv s \<and> (\<forall>r\<in>set rs. not_NaN_progress r)"
  then show "progress_inv (run rs s)" by (simp add: run_inv)
next
  assume a: "new_ObjectId rid = Some oid \<and>
    findOne (\<lambda>e. uc_id e = oid) (userChallenges s) = Some uc \<and> userId uc = u \<and>
    body_progress body = JNumber n \<and> n \<noteq> NaN"
  let ?uc1 = "case body_addLogValue body of
              JNumber v \<Rightarrow> uc\<lparr> progressLogs := progressLogs uc @ [\<lparr> log_date = now, log_value = v \<rparr>] \<rparr>
            | _ \<Rightarrow> uc"
  let ?uc' = "setUpdates now (body_progress body) ?uc1"
  from a updateProgress_owner [of rid oid s uc u now body]
  obtain s' where s': "updateProgress now u rid body s = ((200, Updated (Some ?uc')), s')"
      "findOne (\<lambda>e. uc_id e = oid) (userChallenges s') = Some ?uc'" by blast
  from a have n: "n \<noteq> NaN" and b: "body_progress body = JNumber n" by simp_all
  have p: "progress ?uc' = (if js_le n (Finite 0) then Finite 0
                         else if js_le (Finite 100) n then Finite 100 else n)"
    using b clamp_value [OF n] by (simp add: setUpdates_def Let_def)
  have t: "status ?uc' = (if js_le (Finite 100) n then Finished else Ongoing)"
    using b clamp_ge [OF n] by (simp add: setUpdates_def Let_def)
  from s' p t show "\<exists>uc' s'. updateProgress now u rid body s = ((200, Updated (Some uc')), s') \<and>
         findOne (\<lambda>e. uc_id e = oid) (userChallenges s') = Some uc' \<and>
         progress uc' = (if js_le n (Finite 0) then Finite 0
                         else if js_le (Finite 100) n then Finite 100 else n) \<and>
         status uc' = (if js_le (Finite 100) n then Finished else Ongoing)"
    by blast
qed

theorem progress_clamped_witness:
  "progress_inv (run
      [demo_join,
       UpdateProgress (Some ''ana@eco.org'') 2 demo_enrollment_id
         \<lparr> body_progress = JNumber (Finite 150), body_addLogValue = JUndefined \<rparr>] demo_db) \<and>
   (\<exists>uc' s'. updateProgress 2 ''ana@eco.org'' demo_enrollment_id
         \<lparr> body_progress = JNumber (Finite 150), body_addLogValue = JUndefined \<rparr> demo_joined
           = ((200, Updated (Some uc')), s') \<and>
         findOne (\<lambda>e. uc_id e = ObjectId demo_enrollment_id) (userChallenges s') = Some uc' \<and>
         progress uc' = Finite 100 \<and> status uc' = Finished)"
proof -
  have i: "progress_inv demo_db" by (simp add: progress_inv_def demo_db_def)
  have f: "findOne (\<lambda>e. uc_id e = ObjectId demo_enrollment_id) (userChallenges demo_joined)
             = Some demo_enrollment"
    by (simp add: findOne_def demo_joined_def demo_enrollment_def)
  have u: "userId demo_enrollment = ''ana@eco.org''" by (simp add: demo_enrollment_def)
  from i progress_clamped
    [where s = demo_db and rs = "[demo_join,
       UpdateProgress (Some ''ana@eco.org'') 2 demo_enrollment_id
         \<lparr> body_progress = JNumber (Finite 150), body_addLogValue = JUndefined \<rparr>]"]
  have 1: "progress_inv (run
      [demo_join,
       UpdateProgress (Some ''ana@eco.org'') 2 demo_enrollment_id
         \<lparr> body_progress = JNumber (Finite 150), body_addLogValue = JUndefined \<rparr>] demo_db)"
    by (simp add: demo_join_def)
  from f u demo_enrollment_oid progress_clamped
    [where s = demo_joined and rid = demo_enrollment_id and oid = "ObjectId demo_enrollment_id"
       and uc = demo_enrollment and u = "''ana@eco.org''" and n = "Finite 150" and now = 2
       and body = "\<lparr> body_progress = JNumber (Finite 150), body_addLogValue = JUndefined \<rparr>"]
  have 2: "\<exists>uc' s'. updateProgress 2 ''ana@eco.org'' demo_enrollment_id
         \<lparr> body_progress = JNumber (Finite 150), body_addLogValue = JUndefined \<rparr> demo_joined
           = ((200, Updated (Some uc')), s') \<and>
         findOne (\<lambda>e. uc_id e = ObjectId demo_enrollment_id) (userChallenges s') = Some uc' \<and>
         progress uc' = Finite 100 \<and> status uc' = Finished"
    by simp
  from 1 2 show ?thesis by blast
qed

text \<open>
  NaN satisfies \<open>typeof progress === 'number'\<close> and passes through \<open>Math.min\<close> and
  \<open>Math.max\<close>; no parsed body holds it.
\<close>

lemma NaN_would_pass_the_clamp:
  "map progress (userChallenges (run
      [demo_join,
       UpdateProgress (Some ''ana@eco.org'') 2 demo_enrollment_id
         \<lparr> body_progress = JNumber NaN, body_addLogValue = JUndefined \<rparr>] demo_db)) = [NaN] \<and>
   \<not> progress_inv (run
      [demo_join,
       UpdateProgress (Some ''ana@eco.org'') 2 demo_enrollment_id
         \<lparr> body_progress = JNumber NaN, body_addLogValue = JUndefined \<rparr>] demo_db)"
  by (simp add: demo_run_join demo_joined_def demo_enrollment_def requireAuth_def
        updateProgress_def demo_enrollment_oid findOne_def pushLog_def setUpdates_def
        Math_min_def Math_max_def Let_def progress_inv_def progress_ok_def)

text \<open>
  Claim C3. When no counter is negative, none is negative after any sequence of
  requests, however many of them leave. A leave by the owner deletes the enrollment and
  lowers the counter of the enrollment's challenge by one when the counter is positive
  and leaves it as it is otherwise.
\<close>

theorem leave_counter_never_negative:
  "(nonneg_counters s \<longrightarrow> nonneg_counters (run rs s)) \<and>
   (new_ObjectId rid = Some oid \<and>
    findOne (\<lambda>e. uc_id e = oid) (userChallenges s) = Some uc \<and> userId uc = u \<and>
    challenges s = pre @ ch # post \<and> ch_id ch = challengeId uc \<and>
    (\<forall>c\<in>set (pre @ post). ch_id c \<noteq> challengeId uc) \<longrightarrow>
      fst (leave u rid s) = (200, LeftChallenge) \<and>
      (\<exists>upre upost. userChallenges s = upre @ uc # upost \<and> (\<forall>e\<in>set upre. uc_id e \<noteq> oid) \<and>
         userChallenges (snd (leave u rid s)) = upre @ upost) \<and>
      challenges (snd (leave u rid s)) =
        pre @ ch\<lparr> participants := (if 0 < participants ch then participants ch - 1
                                       else participants ch) \<rparr> # post)"
proof (intro conjI impI)
  assume "nonneg_counters s"
  then show "nonneg_counters (run rs s)" by (rule run_nonneg)
next
  assume a: "new_ObjectId rid = Some oid \<and>
    findOne (\<lambda>e. uc_id e = oid) (userChallenges s) = Some uc \<and> userId uc = u \<and>
    challenges s = pre @ ch # post \<and> ch_id ch = challengeId uc \<and>
    (\<forall>c\<in>set (pre @ post). ch_id c \<noteq> challengeId uc)"
  then have l: "leave u rid s =
    ((200, LeftChallenge),
     s\<lparr> userChallenges := deleteOne (\<lambda>e. uc_id e = oid) (userChallenges s),
        challenges := updateOne (\<lambda>c. ch_id c = challengeId uc \<and> 0 < participants c)
                        (\<lambda>c. c\<lparr> participants := participants c - 1 \<rparr>) (challenges s) \<rparr>)"
    by (simp add: leave_owner)
  show "fst (leave u rid s) = (200, LeftChallenge)" by (simp add: l)
  from a findOne_split [of "\<lambda>e. uc_id e = oid" "userChallenges s" uc]
  obtain upre upost where s: "userChallenges s = upre @ uc # upost"
     "\<forall>e\<in>set upre. uc_id e \<noteq> oid" "uc_id uc = oid" by blast
  then have "deleteOne (\<lambda>e. uc_id e = oid) (userChallenges s) = upre @ upost"
    by (simp add: deleteOne_first)
  with s l show "\<exists>upre upost. userChallenges s = upre @ uc # upost \<and>
       (\<forall>e\<in>set upre. uc_id e \<noteq> oid) \<and> userChallenges (snd (leave u rid s)) = upre @ upost"
    by auto
  from a have "updateOne (\<lambda>c. ch_id c = challengeId uc \<and> 0 < participants c)
           (\<lambda>c. c\<lparr> participants := participants c - 1 \<rparr>) (challenges s)
         = pre @ ch\<lparr> participants := (if 0 < participants ch then participants ch - 1
                                          else participants ch) \<rparr> # post"
    using decrement_parent [of ch "challengeId uc" pre post] by simp
  with l show "challenges (snd (leave u rid s)) =
        pre @ ch\<lparr> participants := (if 0 < participants ch then participants ch - 1
                                       else participants ch) \<rparr> # post"
    by simp
qed

theorem leave_counter_never_negative_witness:
  "nonneg_counters (run [demo_join, Leave (Some ''ana@eco.org'') demo_enrollment_id,
                         Leave (Some ''ana@eco.org'') demo_enrollment_id] demo_db) \<and>
   fst (leave ''ana@eco.org'' demo_enrollment_id demo_joined) = (200, LeftChallenge) \<and>
   (\<exists>upre upost. userChallenges demo_joined = upre @ demo_enrollment # upost \<and>
       (\<forall>e\<in>set upre. uc_id e \<noteq> ObjectId demo_enrollment_id) \<and>
       userChallenges (snd (leave ''ana@eco.org'' demo_enrollment_id demo_joined)) = upre @ upost) \<and>
   challenges (snd (leave ''ana@eco.org'' demo_enrollment_id demo_joined)) =
     [\<lparr> ch_id = ObjectId demo_challenge_id, title = ''Plastic-free July'', participants = 0 \<rparr>]"
proof -
  have i: "nonneg_counters demo_db" by (simp add: nonneg_counters_def demo_db_def)
  have f: "findOne (\<lambda>e. uc_id e = ObjectId demo_enrollment_id) (userChallenges demo_joined)
             = Some demo_enrollment"
    by (simp add: findOne_def demo_joined_def demo_enrollment_def)
  have u: "userId demo_enrollment = ''ana@eco.org''" by (simp add: demo_enrollment_def)
  have c: "challenges demo_joined =
      [] @ \<lparr> ch_id = ObjectId demo_challenge_id, title = ''Plastic-free July'', participants = 1 \<rparr> # []"
    by (simp add: demo_joined_def demo_db_def)
  have r: "ch_id \<lparr> ch_id = ObjectId demo_challenge_id, title = ''Plastic-free July'', participants = 1 \<rparr>
      = challengeId demo_enrollment" by (simp add: demo_enrollment_def)
  from i leave_counter_never_negative [where s = demo_db and
      rs = "[demo_join, Leave (Some ''ana@eco.org'') demo_enrollment_id,
             Leave (Some ''ana@eco.org'') demo_enrollment_id]"]
  have 1: "nonneg_counters (run [demo_join, Leave (Some ''ana@eco.org'') demo_enrollment_id,
                         Leave (Some ''ana@eco.org'') demo_enrollment_id] demo_db)" by blast
  from f u c r demo_enrollment_oid
    leave_counter_never_negative [where s = demo_joined and rid = demo_enrollment_id
      and oid = "ObjectId demo_enrollment_id" and uc = demo_enrollment and u = "''ana@eco.org''"
      and pre = "[]" and post = "[]"
      and ch = "\<lparr> ch_id = ObjectId demo_challenge_id, title = ''Plastic-free July'', participants = 1 \<rparr>"]
  have 2: "fst (leave ''ana@eco.org'' demo_enrollment_id demo_joined) = (200, LeftChallenge) \<and>
   (\<exists>upre upost. userChallenges demo_joined = upre @ demo_enrollment # upost \<and>
       (\<forall>e\<in>set upre. uc_id e \<noteq> ObjectId demo_enrollment_id) \<and>
       userChallenges (snd (leave ''ana@eco.org'' demo_enrollment_id demo_joined)) = upre @ upost) \<and>
   challenges (snd (leave ''ana@eco.org'' demo_enrollment_id demo_joined)) =
     [\<lparr> ch_id = ObjectId demo_challenge_id, title = ''Plastic-free July'', participants = 0 \<rparr>]"
    by simp
  from 1 2 show ?thesis by blast
qed

text \<open>
  Claim C4, at a route parameter that is not a well-formed ObjectId. No challenge has
  the name \<open>abc\<close>; the join handler of the API file answers 404, the join handler of
  the server file answers 500. The database is unchanged.
\<close>

theorem server_join_malformed_id_is_server_error:
  "new_ObjectId ''abc'' = None \<and>
   server_join 2 (ObjectId demo_orphan_id) ''ana@eco.org'' ''abc'' demo_joined
     = ((500, Message ''Failed to join challenge''), demo_joined) \<and>
   join 2 (ObjectId demo_orphan_id) ''ana@eco.org'' ''abc'' demo_joined
     = ((404, Message ''Challenge not found''), demo_joined)"
  by (simp add: server_join_def join_def challengeFilter_def new_ObjectId_def isHex24_def
        findOne_def demo_joined_def demo_db_def)

text \<open>
  Claim C5, at a route parameter that is not a well-formed ObjectId. No enrollment has
  the name \<open>abc\<close>, yet the progress and leave handlers answer 500 rather than 404; the
  join handler answers 404 for the same parameter. The database is unchanged.
\<close>

theorem malformed_id_not_reported_as_not_found:
  "new_ObjectId ''abc'' = None \<and>
   handle (UpdateProgress (Some ''ana@eco.org'') 2 ''abc''
       \<lparr> body_progress = JNumber (Finite 50), body_addLogValue = JUndefined \<rparr>) demo_joined
     = ((500, Message ''Failed to update progress''), demo_joined) \<and>
   handle (Leave (Some ''ana@eco.org'') ''abc'') demo_joined
     = ((500, Message ''Failed to leave challenge''), demo_joined) \<and>
   handle (Join (Some ''ana@eco.org'') 2 (ObjectId demo_orphan_id) ''abc'') demo_joined
     = ((404, Message ''Challenge not found''), demo_joined)"
  by (simp add: requireAuth_def updateProgress_def leave_def join_def challengeFilter_def
        new_ObjectId_def isHex24_def findOne_def demo_joined_def demo_db_def)

text \<open>
  Claim C6. Progress updates by the owner with numeric \<open>addLogValue\<close>s append one entry
  each, with the time and the value of the call, after the entries already stored and in
  the order of the calls; the stored entries stay as they are. When none of the calls
  carries a numeric \<open>progress\<close>, progress and status are unchanged.
\<close>

theorem progress_log_append_only:
  assumes "u \<noteq> []" and "new_ObjectId rid = Some oid"
    and "findOne (\<lambda>e. uc_id e = oid) (userChallenges s) = Some uc" and "userId uc = u"
  shows "\<exists>uc'. findOne (\<lambda>e. uc_id e = oid) (userChallenges (run (map (logCall u rid) calls) s)) = Some uc' \<and>
        progressLogs uc' = progressLogs uc @ map logged calls \<and>
        length (progressLogs uc') = length (progressLogs uc) + length calls \<and>
        ((\<forall>c\<in>set calls. \<not> isNumber (fst (snd c))) \<longrightarrow>
            progress uc' = progress uc \<and> status uc' = status uc)"
proof -
  from logCalls_run [OF assms, of calls] obtain uc' where
    r: "findOne (\<lambda>e. uc_id e = oid) (userChallenges (run (map (logCall u rid) calls) s)) = Some uc'"
       "progressLogs uc' = progressLogs uc @ map logged calls"
       "(\<forall>c\<in>set calls. \<not> isNumber (fst (snd c))) \<longrightarrow>
            progress uc' = progress uc \<and> status uc' = status uc" by blast
  from r(2) have "length (progressLogs uc') = length (progressLogs uc) + length calls" by simp
  with r show ?thesis by blast
qed

theorem progress_log_append_only_witness:
  "\<exists>uc'. findOne (\<lambda>e. uc_id e = ObjectId demo_enrollment_id)
          (userChallenges (run (map (logCall ''ana@eco.org'' demo_enrollment_id)
               [(2, JUndefined, Finite 5), (3, JString ''40'', Finite 3)]) demo_joined)) = Some uc' \<and>
     progressLogs uc' = [\<lparr> log_date = 2, log_value = Finite 5 \<rparr>, \<lparr> log_date = 3, log_value = Finite 3 \<rparr>] \<and>
     length (progressLogs uc') = 2 \<and> progress uc' = Finite 0 \<and> status uc' = Ongoing"
proof -
  have ne: "''ana@eco.org'' \<noteq> []" by simp
  have f: "findOne (\<lambda>e. uc_id e = ObjectId demo_enrollment_id) (userChallenges demo_joined)
             = Some demo_enrollment"
    by (simp add: findOne_def demo_joined_def demo_enrollment_def)
  have u: "userId demo_enrollment = ''ana@eco.org''" by (simp add: demo_enrollment_def)
  from progress_log_append_only [OF ne demo_enrollment_oid f u,
      of "[(2, JUndefined, Finite 5), (3, JString ''40'', Finite 3)]"]
  show ?thesis by (auto simp: logged_def demo_enrollment_def)
qed




text \<open>
  Claim C8, at an enrollment whose \<open>challengeId\<close> is a string of 24 hex digits. The
  join handler stores the string \<open>_id\<close> of the challenge it found, and that challenge
  is in the collection; the list handler of the API file parses the string as an
  ObjectId, finds no challenge and pairs the enrollment with null. The list handler of
  the server file pairs it with the challenge.
\<close>

theorem listMine_misses_string_id_challenge:
  "handle (Join (Some ''ana@eco.org'') 1 (ObjectId demo_enrollment_id) demo_string_id) demo_seeded
     = ((201, Joined (ObjectId demo_enrollment_id) demo_string_enrollment), demo_seeded_joined) \<and>
   findOne (\<lambda>c. ch_id c = challengeId demo_string_enrollment) (challenges demo_seeded_joined)
     = Some \<lparr> ch_id = IdString demo_string_id, title = ''Beach clean-up'', participants = 1 \<rparr> \<and>
   handle (ListMine (Some ''ana@eco.org'')) demo_seeded_joined
     = ((200, Populated [(demo_string_enrollment, None)]), demo_seeded_joined) \<and>
   server_listMine ''ana@eco.org'' demo_seeded_joined
     = ((200, Populated [(demo_string_enrollment,
           Some \<lparr> ch_id = IdString demo_string_id, title = ''Beach clean-up'', participants = 1 \<rparr>)]),
        demo_seeded_joined)"
proof -
  have j: "handle (Join (Some ''ana@eco.org'') 1 (ObjectId demo_enrollment_id) demo_string_id) demo_seeded
     = ((201, Joined (ObjectId demo_enrollment_id) demo_string_enrollment), demo_seeded_joined)"
    by (simp add: requireAuth_def join_def demo_string_filter demo_seeded_def findOne_def id_or_def
          insertOne_def Let_def demo_string_enrollment_def demo_seeded_joined_def)
  have f: "findOne (\<lambda>c. ch_id c = challengeId demo_string_enrollment) (challenges demo_seeded_joined)
     = Some \<lparr> ch_id = IdString demo_string_id, title = ''Beach clean-up'', participants = 1 \<rparr>"
    by (simp add: findOne_def demo_string_enrollment_def demo_seeded_joined_def)
  have m: "filter (\<lambda>u. userId u = ''ana@eco.org'') (userChallenges demo_seeded_joined)
             = [demo_string_enrollment]"
    by (simp add: demo_seeded_joined_def demo_string_enrollment_def)
  have l: "handle (ListMine (Some ''ana@eco.org'')) demo_seeded_joined
     = ((200, Populated [(demo_string_enrollment, None)]), demo_seeded_joined)"
    by (simp add: requireAuth_def listMine_def m demo_string_populate)
  have s: "server_listMine ''ana@eco.org'' demo_seeded_joined
     = ((200, Populated [(demo_string_enrollment,
           Some \<lparr> ch_id = IdString demo_string_id, title = ''Beach clean-up'', participants = 1 \<rparr>)]),
        demo_seeded_joined)"
    by (simp add: server_listMine_def m f)
  from j f l s show ?thesis by blast
qed

text \<open>
  Claim C9. A protected request without the \<open>x-user-email\<close> header is answered 401
  whatever the database holds, and the database is unchanged.
\<close>

theorem unauthenticated_request_rejected:
  "handle (Join None now newId cid) s = (unauthorized, s) \<and>
   handle (UpdateProgress None now rid body) s = (unauthorized, s) \<and>
   handle (Leave None rid) s = (unauthorized, s) \<and>
   handle (ListMine None) s = (unauthorized, s) \<and>
   fst unauthorized = 401"
  by (simp add: requireAuth_def unauthorized_def)

text \<open>
  Claim C10. A leave by the owner of an enrollment whose challenge is not stored answers
  200: the enrollment is removed and nothing else changes.
\<close>

theorem leave_orphaned_enrollment:
  assumes o: "new_ObjectId rid = Some oid"
    and f: "findOne (\<lambda>e. uc_id e = oid) (userChallenges s) = Some uc"
    and u: "userId uc = u"
    and m: "challengeId uc \<notin> ch_id ` set (challenges s)"
  shows "\<exists>upre upost. userChallenges s = upre @ uc # upost \<and> (\<forall>e\<in>set upre. uc_id e \<noteq> oid) \<and>
           leave u rid s = ((200, LeftChallenge), s\<lparr> userChallenges := upre @ upost \<rparr>)"
proof -
  from findOne_split [OF f] obtain upre upost where
    s: "userChallenges s = upre @ uc # upost" "\<forall>e\<in>set upre. uc_id e \<noteq> oid" "uc_id uc = oid"
    by blast
  then have d: "deleteOne (\<lambda>e. uc_id e = oid) (userChallenges s) = upre @ upost"
    by (simp add: deleteOne_first)
  from m have "\<forall>c\<in>set (challenges s). \<not> (ch_id c = challengeId uc \<and> 0 < participants c)"
    by (metis imageI)
  then have c: "updateOne (\<lambda>c. ch_id c = challengeId uc \<and> 0 < participants c)
                  (\<lambda>c. c\<lparr> participants := participants c - 1 \<rparr>) (challenges s) = challenges s"
    by (rule updateOne_none)
  have "leave u rid s = ((200, LeftChallenge), s\<lparr> userChallenges := upre @ upost \<rparr>)"
    by (simp add: leave_owner [OF o f u] d c)
  with s show ?thesis by blast
qed

theorem leave_orphaned_enrollment_witness:
  "\<exists>upre upost. userChallenges demo_stats = upre @ demo_orphan # upost \<and>
      (\<forall>e\<in>set upre. uc_id e \<noteq> ObjectId demo_orphan_id) \<and>
      leave ''ana@eco.org'' demo_orphan_id demo_stats
        = ((200, LeftChallenge), demo_stats\<lparr> userChallenges := upre @ upost \<rparr>)"
proof -
  have f: "findOne (\<lambda>e. uc_id e = ObjectId demo_orphan_id) (userChallenges demo_stats) = Some demo_orphan"
    by (simp add: findOne_def demo_stats_def demo_logged_def demo_enrollment_def demo_orphan_def
          demo_orphan_id_def demo_enrollment_id_def)
  have u: "userId demo_orphan = ''ana@eco.org''" by (simp add: demo_orphan_def demo_enrollment_def)
  have m: "challengeId demo_orphan \<notin> ch_id ` set (challenges demo_stats)"
    by (simp add: demo_orphan_def demo_stats_def demo_joined_def demo_db_def)
  from leave_orphaned_enrollment [OF demo_orphan_oid f u m] show ?thesis .
qed

end
